theory Spec2Isabelle
  imports Main
begin

section \<open>Booking transitions (useBookingsActionsV2)\<close>

text \<open>
  The hook \<^verbatim>\<open>useBookingsActionsV2\<close> offers four mutations on a row of the remote
  table \<^verbatim>\<open>bookings\<close>: \<^verbatim>\<open>acceptBooking\<close>, \<^verbatim>\<open>markInProgress\<close>,
  \<^verbatim>\<open>completeBooking\<close> and \<^verbatim>\<open>cancelBooking\<close>. Each \<^verbatim>\<open>mutationFn\<close> is an
  asynchronous function that reads the ambient user, asks the remote store for the row,
  compares two of its columns and then sends an update. The model threads the remote store
  through each call and returns what the function throws or returns.
\<close>

subsection \<open>Rows of the bookings table\<close>

text \<open>
  A row as \<^verbatim>\<open>select('*')\<close> delivers it. The source reads the columns \<^verbatim>\<open>provider_user_id\<close>
  and \<^verbatim>\<open>status\<close>, filters on \<^verbatim>\<open>id\<close> and writes the six metadata columns below. The
  status is the string the store holds; the source compares it with string literals. Every
  column the source never names is kept in \<open>other_columns\<close>.
\<close>

record booking =
  id :: string
  provider_user_id :: string
  status :: string
  provider_notes :: "string option"
  accepted_at :: "string option"
  started_at :: "string option"
  completed_at :: "string option"
  cancellation_reason :: "string option"
  cancelled_at :: "string option"
  other_columns :: "(string \<times> string) list"

text \<open>
  The object literal handed to \<^verbatim>\<open>update\<close>: its keys in the order written, each with its
  value. A value is \<open>None\<close> where the source passes \<^verbatim>\<open>undefined\<close> (the optional
  \<^verbatim>\<open>notes\<close> left out by the caller).
\<close>

datatype column =
  Status | Provider_notes | Accepted_at | Started_at | Completed_at
  | Cancellation_reason | Cancelled_at

type_synonym payload = "(column \<times> string option) list"

fun write_column :: "column \<Rightarrow> string \<Rightarrow> booking \<Rightarrow> booking" where
  "write_column Status v b = b\<lparr>status := v\<rparr>"
| "write_column Provider_notes v b = b\<lparr>provider_notes := Some v\<rparr>"
| "write_column Accepted_at v b = b\<lparr>accepted_at := Some v\<rparr>"
| "write_column Started_at v b = b\<lparr>started_at := Some v\<rparr>"
| "write_column Completed_at v b = b\<lparr>completed_at := Some v\<rparr>"
| "write_column Cancellation_reason v b = b\<lparr>cancellation_reason := Some v\<rparr>"
| "write_column Cancelled_at v b = b\<lparr>cancelled_at := Some v\<rparr>"

text \<open>
  The store writes the keys of the payload that carry a value. A key whose value is
  \<^verbatim>\<open>undefined\<close> does not reach the store (the request body is JSON), so its column keeps
  what it held.
\<close>

fun apply_payload :: "payload \<Rightarrow> booking \<Rightarrow> booking" where
  "apply_payload [] b = b"
| "apply_payload ((c, None) # p) b = apply_payload p b"
| "apply_payload ((c, Some v) # p) b = apply_payload p (write_column c v b)"

subsection \<open>The remote store\<close>

text \<open>
  The store is an external collaborator. Its table is a list of rows; \<open>select_error\<close> and
  \<open>update_error\<close> are the error, if any, with which it answers a read and a write (a lost
  connection, a policy that rejects the request); \<open>requests\<close> records every request the
  client has sent, in order.
\<close>

datatype request = Select_single string | Update payload string

record remote =
  rows :: "booking list"
  select_error :: "string option"
  update_error :: "string option"
  requests :: "request list"

text \<open>
  \<^verbatim>\<open>supabase.from('bookings').select('*').eq('id', bookingId).single()\<close>: the answer
  carries the row when exactly one row has that id and an error otherwise.
\<close>

definition select_single :: "string \<Rightarrow> remote \<Rightarrow> (string + booking) \<times> remote" where
  "select_single bookingId r =
     (let r' = r\<lparr>requests := requests r @ [Select_single bookingId]\<rparr> in
      case select_error r of
        Some e \<Rightarrow> (Inl e, r')
      | None \<Rightarrow>
          (case filter (\<lambda>b. booking.id b = bookingId) (rows r) of
             [b] \<Rightarrow> (Inr b, r')
           | _ \<Rightarrow> (Inl ''PGRST116'', r')))"

text \<open>
  \<^verbatim>\<open>supabase.from('bookings').update(payload).eq('id', bookingId)\<close>: the answer is the
  error, if any; a rejected update leaves the table as it was.
\<close>

definition update_eq_id :: "payload \<Rightarrow> string \<Rightarrow> remote \<Rightarrow> string option \<times> remote" where
  "update_eq_id p bookingId r =
     (let r' = r\<lparr>requests := requests r @ [Update p bookingId]\<rparr> in
      case update_error r of
        Some e \<Rightarrow> (Some e, r')
      | None \<Rightarrow>
          (None, r'\<lparr>rows := map (\<lambda>b. if booking.id b = bookingId then apply_payload p b else b)
                               (rows r)\<rparr>))"

subsection \<open>The four mutation functions\<close>

text \<open>
  What a \<^verbatim>\<open>mutationFn\<close> throws: \<^verbatim>\<open>new Error(message)\<close>, or the error object of the
  store (\<^verbatim>\<open>throw error\<close>).
\<close>

datatype thrown = Error string | Store_error string

text \<open>
  The ambient user is \<open>None\<close> when nobody is signed in and \<open>Some uid\<close> otherwise.
  \<^verbatim>\<open>!user?.id\<close> holds when there is no user or the id is the empty string.
  \<open>now\<close> stands for \<^verbatim>\<open>new Date().toISOString()\<close>. The value returned on success is
  the object \<^verbatim>\<open>{ bookingId, status }\<close>, modelled as a pair.
\<close>

definition acceptBooking ::
  "string option \<Rightarrow> string \<Rightarrow> string \<Rightarrow> string option \<Rightarrow> remote
     \<Rightarrow> (thrown + string \<times> string) \<times> remote" where
  "acceptBooking user now bookingId notes r =
     (case user of
        None \<Rightarrow> (Inl (Error ''User not authenticated''), r)
      | Some uid \<Rightarrow>
          if uid = [] then (Inl (Error ''User not authenticated''), r)
          else
            (case select_single bookingId r of
               (Inl fetchError, r1) \<Rightarrow> (Inl (Error ''Failed to fetch booking details''), r1)
             | (Inr b, r1) \<Rightarrow>
                 if booking.provider_user_id b \<noteq> uid
                 then (Inl (Error ''You are not authorized to accept this booking''), r1)
                 else if status b \<noteq> ''pending''
                 then (Inl (Error ''This booking cannot be accepted''), r1)
                 else
                   (case update_eq_id
                           [(Status, Some ''accepted''), (Provider_notes, notes),
                            (Accepted_at, Some now)] bookingId r1 of
                      (Some e, r2) \<Rightarrow> (Inl (Store_error e), r2)
                    | (None, r2) \<Rightarrow> (Inr (bookingId, ''accepted''), r2))))"

definition markInProgress ::
  "string option \<Rightarrow> string \<Rightarrow> string \<Rightarrow> string option \<Rightarrow> remote
     \<Rightarrow> (thrown + string \<times> string) \<times> remote" where
  "markInProgress user now bookingId notes r =
     (case user of
        None \<Rightarrow> (Inl (Error ''User not authenticated''), r)
      | Some uid \<Rightarrow>
          if uid = [] then (Inl (Error ''User not authenticated''), r)
          else
            (case select_single bookingId r of
               (Inl fetchError, r1) \<Rightarrow> (Inl (Error ''Failed to fetch booking details''), r1)
             | (Inr b, r1) \<Rightarrow>
                 if booking.provider_user_id b \<noteq> uid
                 then (Inl (Error ''You are not authorized to update this booking''), r1)
                 else if status b \<noteq> ''accepted''
                 then (Inl (Error ''This booking cannot be marked as in progress''), r1)
                 else
                   (case update_eq_id
                           [(Status, Some ''in_progress''), (Provider_notes, notes),
                            (Started_at, Some now)] bookingId r1 of
                      (Some e, r2) \<Rightarrow> (Inl (Store_error e), r2)
                    | (None, r2) \<Rightarrow> (Inr (bookingId, ''in_progress''), r2))))"

definition completeBooking ::
  "string option \<Rightarrow> string \<Rightarrow> string \<Rightarrow> string option \<Rightarrow> remote
     \<Rightarrow> (thrown + string \<times> string) \<times> remote" where
  "completeBooking user now bookingId notes r =
     (case user of
        None \<Rightarrow> (Inl (Error ''User not authenticated''), r)
      | Some uid \<Rightarrow>
          if uid = [] then (Inl (Error ''User not authenticated''), r)
          else
            (case select_single bookingId r of
               (Inl fetchError, r1) \<Rightarrow> (Inl (Error ''Failed to fetch booking details''), r1)
             | (Inr b, r1) \<Rightarrow>
                 if booking.provider_user_id b \<noteq> uid
                 then (Inl (Error ''You are not authorized to complete this booking''), r1)
                 else if status b \<noteq> ''in_progress''
                 then (Inl (Error ''This booking cannot be completed''), r1)
                 else
                   (case update_eq_id
                           [(Status, Some ''completed''), (Provider_notes, notes),
                            (Completed_at, Some now)] bookingId r1 of
                      (Some e, r2) \<Rightarrow> (Inl (Store_error e), r2)
                    | (None, r2) \<Rightarrow> (Inr (bookingId, ''completed''), r2))))"

text \<open>
  \<^verbatim>\<open>cancelBooking\<close> takes a mandatory \<^verbatim>\<open>reason\<close> and refuses the two statuses of the
  array literal \<^verbatim>\<open>['cancelled', 'completed']\<close>.
\<close>

definition cancelBooking ::
  "string option \<Rightarrow> string \<Rightarrow> string \<Rightarrow> string \<Rightarrow> remote
     \<Rightarrow> (thrown + string \<times> string) \<times> remote" where
  "cancelBooking user now bookingId reason r =
     (case user of
        None \<Rightarrow> (Inl (Error ''User not authenticated''), r)
      | Some uid \<Rightarrow>
          if uid = [] then (Inl (Error ''User not authenticated''), r)
          else
            (case select_single bookingId r of
               (Inl fetchError, r1) \<Rightarrow> (Inl (Error ''Failed to fetch booking details''), r1)
             | (Inr b, r1) \<Rightarrow>
                 if booking.provider_user_id b \<noteq> uid
                 then (Inl (Error ''You are not authorized to cancel this booking''), r1)
                 else if List.member [''cancelled'', ''completed''] (status b)
                 then (Inl (Error ''This booking cannot be cancelled''), r1)
                 else
                   (case update_eq_id
                           [(Status, Some ''cancelled''), (Cancellation_reason, Some reason),
                            (Cancelled_at, Some now)] bookingId r1 of
                      (Some e, r2) \<Rightarrow> (Inl (Store_error e), r2)
                    | (None, r2) \<Rightarrow> (Inr (bookingId, ''cancelled''), r2))))"

text \<open>The updates a store has been sent.\<close>

fun is_update :: "request \<Rightarrow> bool" where
  "is_update (Update p i) = True"
| "is_update (Select_single i) = False"

definition updates_sent :: "remote \<Rightarrow> request list" where
  "updates_sent r = filter is_update (requests r)"

text \<open>What a column of a row holds, read as the store would report it.\<close>

fun read_column :: "column \<Rightarrow> booking \<Rightarrow> string option" where
  "read_column Status b = Some (status b)"
| "read_column Provider_notes b = provider_notes b"
| "read_column Accepted_at b = accepted_at b"
| "read_column Started_at b = started_at b"
| "read_column Completed_at b = completed_at b"
| "read_column Cancellation_reason b = cancellation_reason b"
| "read_column Cancelled_at b = cancelled_at b"

subsection \<open>The specification's reading of a transition\<close>

text \<open>
  The specification describes the four transitions as one pattern: authentication, fetch,
  authorization, precondition, update. \<open>guarded_transition\<close> is that pattern, with the two
  messages, the precondition on the status, the target status and the payload left open.
  It is compared with each of the four functions of the source below.
\<close>

definition guarded_transition ::
  "string \<Rightarrow> string \<Rightarrow> (string \<Rightarrow> bool) \<Rightarrow> string \<Rightarrow> payload
     \<Rightarrow> string option \<Rightarrow> string \<Rightarrow> remote \<Rightarrow> (thrown + string \<times> string) \<times> remote" where
  "guarded_transition denied refused allowed target p user bookingId r =
     (case user of
        None \<Rightarrow> (Inl (Error ''User not authenticated''), r)
      | Some uid \<Rightarrow>
          if uid = [] then (Inl (Error ''User not authenticated''), r)
          else
            (case select_single bookingId r of
               (Inl fetchError, r1) \<Rightarrow> (Inl (Error ''Failed to fetch booking details''), r1)
             | (Inr b, r1) \<Rightarrow>
                 if booking.provider_user_id b \<noteq> uid then (Inl (Error denied), r1)
                 else if \<not> allowed (status b) then (Inl (Error refused), r1)
                 else
                   (case update_eq_id p bookingId r1 of
                      (Some e, r2) \<Rightarrow> (Inl (Store_error e), r2)
                    | (None, r2) \<Rightarrow> (Inr (bookingId, target), r2))))"

text \<open>
  The order of the checks, as a property of a transition \<open>f\<close> (a function of the user, the
  booking id and the store): without a caller it throws the authentication error and sends
  nothing; with a caller and a failed fetch it throws the fetch error; with a fetched row of
  another provider it throws \<open>denied\<close>, whatever the status; with the caller's own row in a
  status outside \<open>allowed\<close> it throws \<open>refused\<close>.
\<close>

definition checks_in_order ::
  "(string option \<Rightarrow> string \<Rightarrow> remote \<Rightarrow> (thrown + string \<times> string) \<times> remote)
     \<Rightarrow> string \<Rightarrow> string \<Rightarrow> (string \<Rightarrow> bool) \<Rightarrow> bool" where
  "checks_in_order f denied refused allowed \<longleftrightarrow>
     (\<forall>i r. f None i r = (Inl (Error ''User not authenticated''), r)
          \<and> f (Some []) i r = (Inl (Error ''User not authenticated''), r))
   \<and> (\<forall>uid i r e. uid \<noteq> [] \<and> fst (select_single i r) = Inl e
          \<longrightarrow> fst (f (Some uid) i r) = Inl (Error ''Failed to fetch booking details''))
   \<and> (\<forall>uid i r b. uid \<noteq> [] \<and> fst (select_single i r) = Inr b
            \<and> booking.provider_user_id b \<noteq> uid
          \<longrightarrow> fst (f (Some uid) i r) = Inl (Error denied))
   \<and> (\<forall>uid i r b. uid \<noteq> [] \<and> fst (select_single i r) = Inr b
            \<and> booking.provider_user_id b = uid \<and> \<not> allowed (status b)
          \<longrightarrow> fst (f (Some uid) i r) = Inl (Error refused))"

text \<open>
  The frame of an update: \<open>b'\<close> agrees with \<open>b\<close> on the id, the provider, every column the
  source never names and every metadata column outside \<open>cs\<close>.
\<close>

definition written_only :: "column list \<Rightarrow> booking \<Rightarrow> booking \<Rightarrow> bool" where
  "written_only cs b b' \<longleftrightarrow>
     booking.id b' = booking.id b
   \<and> booking.provider_user_id b' = booking.provider_user_id b
   \<and> other_columns b' = other_columns b
   \<and> (\<forall>c. c \<notin> set cs \<longrightarrow> read_column c b' = read_column c b)"

text \<open>
  The booking of the specification's scenarios (id \<^verbatim>\<open>b1\<close>, provider \<^verbatim>\<open>u1\<close>) in a given
  status, and a store that holds it and answers updates with a given error, if any.
\<close>

definition scenario_booking :: "string \<Rightarrow> booking" where
  "scenario_booking st =
     \<lparr>booking.id = ''b1'', provider_user_id = ''u1'', status = st, provider_notes = None,
      accepted_at = None, started_at = None, completed_at = None,
      cancellation_reason = None, cancelled_at = None,
      other_columns = [(''customer_id'', ''c1'')]\<rparr>"

definition scenario_store :: "string \<Rightarrow> string option \<Rightarrow> remote" where
  "scenario_store st fault =
     \<lparr>rows = [scenario_booking st], select_error = None, update_error = fault, requests = []\<rparr>"

section \<open>Favorites (useFavorites)\<close>

text \<open>
  The hook \<^verbatim>\<open>useFavorites\<close> keeps the list \<^verbatim>\<open>favorites\<close> and the flag \<^verbatim>\<open>loading\<close> in
  component state and offers \<^verbatim>\<open>loadFavorites\<close>, \<^verbatim>\<open>addToFavorites\<close>,
  \<^verbatim>\<open>removeFromFavorites\<close> and \<^verbatim>\<open>isFavorite\<close>. Each asynchronous operation sends at most
  one request to the remote store; the model takes the store's answer to that request as an
  argument, and runs a state update at the point where the source calls the setter.

  The operations are callbacks created by a render of the component. A callback that names
  \<^verbatim>\<open>favorites\<close> in its body reads the list of the render that created it, not the state
  at the time of the call; a functional setter \<^verbatim>\<open>setFavorites(prev => ...)\<close> works on the
  state at the time it runs. Where the source does both, the model takes the captured list
  as an argument of its own, next to the state.
\<close>

record favorite =
  id :: string
  customer_id :: string
  provider_user_id :: string
  created_at :: string

text \<open>The argument of \<^verbatim>\<open>toast\<close>; \<open>variant\<close> is \<open>None\<close> where the source leaves it out.\<close>

record toast =
  title :: string
  description :: string
  variant :: "string option"

text \<open>The requests of the hook to the table \<^verbatim>\<open>favorites\<close>, with the values they filter on or insert.\<close>

datatype fav_request =
  Select_favorites string
  | Insert_favorite string string
  | Delete_favorite string string

text \<open>
  The outcome of an awaited request: \<open>Data d\<close> for \<^verbatim>\<open>{ data: d, error: null }\<close>,
  \<open>Failed e\<close> for an answer that carries an error, \<open>Thrown e\<close> when the call raises
  an exception instead of answering.
\<close>

datatype 'a answer = Data 'a | Failed string | Thrown string

text \<open>
  The component state, the notifications shown so far and the requests sent so far.
\<close>

record hook_state =
  favorites :: "favorite list"
  loading :: bool
  toasts :: "toast list"
  fav_requests :: "fav_request list"

definition show_toast :: "toast \<Rightarrow> hook_state \<Rightarrow> hook_state" where
  "show_toast t h = h\<lparr>toasts := toasts h @ [t]\<rparr>"

text \<open>
  \<^verbatim>\<open>loadFavorites\<close> returns nothing. The answer's data may be \<^verbatim>\<open>null\<close>, which
  \<^verbatim>\<open>data || []\<close> turns into the empty list. The \<^verbatim>\<open>finally\<close> block resets
  \<^verbatim>\<open>loading\<close> on every path that entered the \<^verbatim>\<open>try\<close>.
\<close>

definition loadFavorites ::
  "string option \<Rightarrow> favorite list option answer \<Rightarrow> hook_state \<Rightarrow> hook_state" where
  "loadFavorites user ans h =
     (case user of
        None \<Rightarrow> h\<lparr>favorites := []\<rparr>
      | Some uid \<Rightarrow>
          if uid = [] then h\<lparr>favorites := []\<rparr>
          else
            (let h1 = h\<lparr>loading := True, fav_requests := fav_requests h @ [Select_favorites uid]\<rparr>;
                 h2 = (case ans of
                         Thrown e \<Rightarrow>
                           show_toast \<lparr>title = ''Error'',
                             description = ''An unexpected error occurred while loading favorites.'',
                             variant = Some ''destructive''\<rparr> h1
                       | Failed e \<Rightarrow>
                           show_toast \<lparr>title = ''Error'',
                             description = ''Failed to load favorites. Please try again.'',
                             variant = Some ''destructive''\<rparr> h1
                       | Data d \<Rightarrow>
                           h1\<lparr>favorites := (case d of None \<Rightarrow> [] | Some fs \<Rightarrow> fs)\<rparr>)
             in h2\<lparr>loading := False\<rparr>))"

text \<open>
  \<^verbatim>\<open>addToFavorites\<close> looks for an existing entry with \<^verbatim>\<open>favorites.find\<close>, on the list
  its closure captured (its dependency array names \<^verbatim>\<open>favorites\<close>, so every render that
  changes the list creates a new callback), and appends the inserted record with
  \<^verbatim>\<open>setFavorites(prev => [...prev, data])\<close>, on the state. \<open>favorites_closure\<close> is the
  captured list and \<open>h\<close> the state.
\<close>

definition addToFavorites ::
  "string option \<Rightarrow> favorite list \<Rightarrow> string \<Rightarrow> favorite answer \<Rightarrow> hook_state
     \<Rightarrow> bool \<times> hook_state" where
  "addToFavorites user favorites_closure providerUserId ans h =
     (case user of
        None \<Rightarrow>
          (False, show_toast \<lparr>title = ''Authentication Required'',
                     description = ''Please log in to add favorites.'',
                     variant = Some ''destructive''\<rparr> h)
      | Some uid \<Rightarrow>
          if uid = [] then
            (False, show_toast \<lparr>title = ''Authentication Required'',
                       description = ''Please log in to add favorites.'',
                       variant = Some ''destructive''\<rparr> h)
          else
            (case find (\<lambda>fav. favorite.provider_user_id fav = providerUserId)
                    favorites_closure of
               Some existingFavorite \<Rightarrow>
                 (False, show_toast \<lparr>title = ''Already in Favorites'',
                            description = ''This provider is already in your favorites.'',
                            variant = Some ''destructive''\<rparr> h)
             | None \<Rightarrow>
                 (let h1 = h\<lparr>fav_requests := fav_requests h @ [Insert_favorite uid providerUserId]\<rparr>
                  in case ans of
                       Thrown e \<Rightarrow>
                         (False, show_toast \<lparr>title = ''Error'',
                                    description = ''Failed to add to favorites. Please try again.'',
                                    variant = Some ''destructive''\<rparr> h1)
                     | Failed e \<Rightarrow>
                         (False, show_toast \<lparr>title = ''Error'',
                                    description = ''Failed to add to favorites. Please try again.'',
                                    variant = Some ''destructive''\<rparr> h1)
                     | Data d \<Rightarrow>
                         (True, show_toast \<lparr>title = ''Added to Favorites'',
                                   description = ''Provider has been added to your favorites.'',
                                   variant = None\<rparr>
                                  (h1\<lparr>favorites := favorites h1 @ [d]\<rparr>)))))"

definition removeFromFavorites ::
  "string option \<Rightarrow> string \<Rightarrow> unit answer \<Rightarrow> hook_state \<Rightarrow> bool \<times> hook_state" where
  "removeFromFavorites user providerUserId ans h =
     (case user of
        None \<Rightarrow> (False, h)
      | Some uid \<Rightarrow>
          if uid = [] then (False, h)
          else
            (let h1 = h\<lparr>fav_requests := fav_requests h @ [Delete_favorite uid providerUserId]\<rparr>
             in case ans of
                  Thrown e \<Rightarrow>
                    (False, show_toast \<lparr>title = ''Error'',
                               description = ''Failed to remove from favorites. Please try again.'',
                               variant = Some ''destructive''\<rparr> h1)
                | Failed e \<Rightarrow>
                    (False, show_toast \<lparr>title = ''Error'',
                               description = ''Failed to remove from favorites. Please try again.'',
                               variant = Some ''destructive''\<rparr> h1)
                | Data d \<Rightarrow>
                    (True, show_toast \<lparr>title = ''Removed from Favorites'',
                              description = ''Provider has been removed from your favorites.'',
                              variant = None\<rparr>
                             (h1\<lparr>favorites :=
                                   filter (\<lambda>fav. favorite.provider_user_id fav \<noteq> providerUserId)
                                     (favorites h1)\<rparr>))))"

text \<open>\<^verbatim>\<open>favorites.some(fav => fav.provider_user_id === providerUserId)\<close>.\<close>

definition isFavorite :: "hook_state \<Rightarrow> string \<Rightarrow> bool" where
  "isFavorite h providerUserId =
     list_ex (\<lambda>fav. favorite.provider_user_id fav = providerUserId) (favorites h)"

text \<open>
  A favorite of customer \<^verbatim>\<open>c1\<close> for a given provider, and a hook state that holds a given
  list with nothing shown or sent yet.
\<close>

definition scenario_favorite :: "string \<Rightarrow> string \<Rightarrow> favorite" where
  "scenario_favorite i p =
     \<lparr>favorite.id = i, customer_id = ''c1'', provider_user_id = p, created_at = ''t0''\<rparr>"

definition scenario_hook :: "favorite list \<Rightarrow> hook_state" where
  "scenario_hook fs = \<lparr>favorites = fs, loading = False, toasts = [], fav_requests = []\<rparr>"

section \<open>Properties of the booking transitions\<close>

subsection \<open>The store\<close>

lemma select_single_snd:
  "snd (select_single i r) = r\<lparr>requests := requests r @ [Select_single i]\<rparr>"
  by (simp add: select_single_def Let_def split: option.splits list.splits)

lemma select_single_Inr:
  "fst (select_single i r) = Inr b \<longleftrightarrow>
     select_error r = None \<and> filter (\<lambda>x. booking.id x = i) (rows r) = [b]"
  by (auto simp add: select_single_def Let_def split: option.splits list.splits)

lemma select_single_pair:
  "select_single i r = (fst (select_single i r), r\<lparr>requests := requests r @ [Select_single i]\<rparr>)"
  by (metis prod.collapse select_single_snd)

lemma write_column_keeps:
  "booking.id (write_column c v b) = booking.id b"
  "booking.provider_user_id (write_column c v b) = booking.provider_user_id b"
  "other_columns (write_column c v b) = other_columns b"
  "c' \<noteq> c \<Longrightarrow> read_column c' (write_column c v b) = read_column c' b"
  by (cases c; cases c'; simp)+

lemma apply_payload_keeps:
  "booking.id (apply_payload p b) = booking.id b"
  "booking.provider_user_id (apply_payload p b) = booking.provider_user_id b"
  "other_columns (apply_payload p b) = other_columns b"
  by (induction p b rule: apply_payload.induct) (simp_all add: write_column_keeps)

lemma apply_payload_frame:
  "c \<notin> fst ` set p \<Longrightarrow> read_column c (apply_payload p b) = read_column c b"
  by (induction p b rule: apply_payload.induct) (auto simp add: write_column_keeps)

lemma written_only_apply_payload: "written_only (map fst p) b (apply_payload p b)"
  by (simp add: written_only_def apply_payload_keeps apply_payload_frame)

lemma filter_id_map_payload:
  "filter (\<lambda>x. booking.id x = i) (map (\<lambda>x. if booking.id x = i then apply_payload p x else x) xs)
     = map (apply_payload p) (filter (\<lambda>x. booking.id x = i) xs)"
  by (induction xs) (simp_all add: apply_payload_keeps)

subsection \<open>The pattern and the four functions\<close>

text \<open>
  What the pattern does in each of its cases, and that each function of the source is the
  pattern at its own messages, precondition, target status and payload.
\<close>

lemma guarded_unauthenticated:
  "guarded_transition denied refused allowed target p None i r
     = (Inl (Error ''User not authenticated''), r)"
  "guarded_transition denied refused allowed target p (Some []) i r
     = (Inl (Error ''User not authenticated''), r)"
  by (simp_all add: guarded_transition_def)

lemma guarded_fetch_failed:
  assumes "uid \<noteq> []" and "fst (select_single i r) = Inl e"
  shows "guarded_transition denied refused allowed target p (Some uid) i r
     = (Inl (Error ''Failed to fetch booking details''),
        r\<lparr>requests := requests r @ [Select_single i]\<rparr>)"
proof -
  have "select_single i r = (Inl e, r\<lparr>requests := requests r @ [Select_single i]\<rparr>)"
    using assms(2) select_single_pair [of i r] by simp
  then show ?thesis using assms(1) by (simp add: guarded_transition_def)
qed

lemma guarded_fetched:
  assumes "uid \<noteq> []" and "fst (select_single i r) = Inr b"
  shows "guarded_transition denied refused allowed target p (Some uid) i r =
     (if booking.provider_user_id b \<noteq> uid
      then (Inl (Error denied), r\<lparr>requests := requests r @ [Select_single i]\<rparr>)
      else if \<not> allowed (status b)
      then (Inl (Error refused), r\<lparr>requests := requests r @ [Select_single i]\<rparr>)
      else (case update_error r of
              Some e \<Rightarrow>
                (Inl (Store_error e),
                 r\<lparr>requests := requests r @ [Select_single i, Update p i]\<rparr>)
            | None \<Rightarrow>
                (Inr (i, target),
                 r\<lparr>requests := requests r @ [Select_single i, Update p i],
                   rows := map (\<lambda>x. if booking.id x = i then apply_payload p x else x) (rows r)\<rparr>)))"
proof -
  have "select_single i r = (Inr b, r\<lparr>requests := requests r @ [Select_single i]\<rparr>)"
    using assms(2) select_single_pair [of i r] by simp
  then show ?thesis using assms(1)
    by (cases "update_error r") (simp_all add: guarded_transition_def update_eq_id_def Let_def)
qed

lemma guarded_success_iff:
  "(\<exists>res. fst (guarded_transition denied refused allowed target p user i r) = Inr res) \<longleftrightarrow>
     (\<exists>uid b. user = Some uid \<and> uid \<noteq> [] \<and> fst (select_single i r) = Inr b
        \<and> booking.provider_user_id b = uid \<and> allowed (status b) \<and> update_error r = None)"
proof (cases user)
  case None
  then show ?thesis by (simp add: guarded_unauthenticated)
next
  case (Some uid)
  show ?thesis
  proof (cases "uid = []")
    case True
    with Some show ?thesis by (simp add: guarded_unauthenticated)
  next
    case False
    show ?thesis
    proof (cases "fst (select_single i r)")
      case (Inl e)
      with Some False show ?thesis by (simp add: guarded_fetch_failed)
    next
      case (Inr b)
      with Some False show ?thesis
        by (cases "update_error r") (auto simp add: guarded_fetched)
    qed
  qed
qed

lemma guarded_checks_in_order:
  "checks_in_order (guarded_transition denied refused allowed target p) denied refused allowed"
  unfolding checks_in_order_def
  by (simp add: guarded_unauthenticated guarded_fetch_failed guarded_fetched)

lemma acceptBooking_pattern:
  "acceptBooking user now i notes r =
     guarded_transition ''You are not authorized to accept this booking''
       ''This booking cannot be accepted'' (\<lambda>s. s = ''pending'') ''accepted''
       [(Status, Some ''accepted''), (Provider_notes, notes), (Accepted_at, Some now)] user i r"
  by (simp add: acceptBooking_def guarded_transition_def)

lemma markInProgress_pattern:
  "markInProgress user now i notes r =
     guarded_transition ''You are not authorized to update this booking''
       ''This booking cannot be marked as in progress'' (\<lambda>s. s = ''accepted'') ''in_progress''
       [(Status, Some ''in_progress''), (Provider_notes, notes), (Started_at, Some now)] user i r"
  by (simp add: markInProgress_def guarded_transition_def)

lemma completeBooking_pattern:
  "completeBooking user now i notes r =
     guarded_transition ''You are not authorized to complete this booking''
       ''This booking cannot be completed'' (\<lambda>s. s = ''in_progress'') ''completed''
       [(Status, Some ''completed''), (Provider_notes, notes), (Completed_at, Some now)] user i r"
  by (simp add: completeBooking_def guarded_transition_def)

lemma cancelBooking_pattern:
  "cancelBooking user now i reason r =
     guarded_transition ''You are not authorized to cancel this booking''
       ''This booking cannot be cancelled'' (\<lambda>s. s \<noteq> ''cancelled'' \<and> s \<noteq> ''completed'') ''cancelled''
       [(Status, Some ''cancelled''), (Cancellation_reason, Some reason), (Cancelled_at, Some now)]
       user i r"
  by (auto simp add: cancelBooking_def guarded_transition_def split: option.splits sum.splits prod.splits)

subsection \<open>Facts shared by the claims\<close>

lemma fetch_after_update:
  assumes "fst (select_single i r) = Inr b"
  shows "fst (select_single i
            (r\<lparr>requests := q,
               rows := map (\<lambda>x. if booking.id x = i then apply_payload p x else x) (rows r)\<rparr>))
         = Inr (apply_payload p b)"
  using assms by (simp add: select_single_Inr filter_id_map_payload)

lemma updates_sent_simps:
  "updates_sent (r\<lparr>requests := requests r @ [Select_single i]\<rparr>) = updates_sent r"
  "updates_sent (r\<lparr>requests := requests r @ [Select_single i, Update p i]\<rparr>)
     = updates_sent r @ [Update p i]"
  "updates_sent (r\<lparr>requests := requests r @ [Select_single i, Update p i], rows := xs\<rparr>)
     = updates_sent r @ [Update p i]"
  by (simp_all add: updates_sent_def)

lemma scenario_fetch:
  "fst (select_single ''b1'' (scenario_store st fault)) = Inr (scenario_booking st)"
  by (simp add: select_single_def scenario_store_def scenario_booking_def)

lemma scenario_fields:
  "status (scenario_booking st) = st"
  "booking.provider_user_id (scenario_booking st) = ''u1''"
  "update_error (scenario_store st fault) = fault"
  by (simp_all add: scenario_store_def scenario_booking_def)

lemma scenario_fetch_missing:
  "fst (select_single ''b9'' (scenario_store st fault)) = Inl ''PGRST116''"
  by (simp add: select_single_def scenario_store_def scenario_booking_def)

lemma guarded_success_frame:
  assumes "fst (guarded_transition denied refused allowed target p user i r) = Inr res"
  shows "\<exists>b. fst (select_single i r) = Inr b
         \<and> fst (select_single i (snd (guarded_transition denied refused allowed target p user i r)))
             = Inr (apply_payload p b)
         \<and> updates_sent (snd (guarded_transition denied refused allowed target p user i r))
             = updates_sent r @ [Update p i]"
proof -
  have "\<exists>res. fst (guarded_transition denied refused allowed target p user i r) = Inr res"
    using assms by simp
  then obtain uid b where h: "user = Some uid" "uid \<noteq> []" "fst (select_single i r) = Inr b"
      "booking.provider_user_id b = uid" "allowed (status b)" "update_error r = None"
    unfolding guarded_success_iff by (elim exE conjE)
  then show ?thesis
    by (simp add: guarded_fetched fetch_after_update updates_sent_simps)
qed

subsection \<open>Accepting a booking\<close>

text \<open>
  C1, as amended. For a caller who passes the authentication check and a booking the fetch
  delivers, \<^verbatim>\<open>acceptBooking\<close> succeeds exactly when the fetched status is \<^verbatim>\<open>pending\<close>,
  the booking's \<^verbatim>\<open>provider_user_id\<close> is the caller's id and the store answers the update
  without an error. In that case it returns the booking id with the status \<^verbatim>\<open>accepted\<close>,
  and the row then has status \<^verbatim>\<open>accepted\<close>, \<^verbatim>\<open>accepted_at\<close> set to the time of the call
  and \<^verbatim>\<open>provider_notes\<close> set to the notes supplied (kept as it was when none were
  supplied). Whenever the status is not \<^verbatim>\<open>pending\<close> or the provider is not the caller,
  it throws (the authorization error first, the invalid-transition error otherwise), sends
  no update and leaves the table as it was.
\<close>

theorem accept_succeeds_exactly_when:
  assumes "uid \<noteq> []" and "fst (select_single i r) = Inr b"
  shows "((\<exists>res. fst (acceptBooking (Some uid) now i memo r) = Inr res) \<longleftrightarrow>
            status b = ''pending'' \<and> booking.provider_user_id b = uid \<and> update_error r = None)
       \<and> (status b = ''pending'' \<and> booking.provider_user_id b = uid \<and> update_error r = None \<longrightarrow>
            fst (acceptBooking (Some uid) now i memo r) = Inr (i, ''accepted'')
          \<and> (\<exists>b'. fst (select_single i (snd (acceptBooking (Some uid) now i memo r))) = Inr b'
                \<and> status b' = ''accepted'' \<and> accepted_at b' = Some now
                \<and> provider_notes b' = (case memo of None \<Rightarrow> provider_notes b | Some n \<Rightarrow> Some n)))
       \<and> (\<not> (status b = ''pending'' \<and> booking.provider_user_id b = uid) \<longrightarrow>
            fst (acceptBooking (Some uid) now i memo r)
              = Inl (Error (if booking.provider_user_id b \<noteq> uid
                            then ''You are not authorized to accept this booking''
                            else ''This booking cannot be accepted''))
          \<and> updates_sent (snd (acceptBooking (Some uid) now i memo r)) = updates_sent r
          \<and> rows (snd (acceptBooking (Some uid) now i memo r)) = rows r)"
proof (intro conjI impI)
  show "(\<exists>res. fst (acceptBooking (Some uid) now i memo r) = Inr res) \<longleftrightarrow>
            status b = ''pending'' \<and> booking.provider_user_id b = uid \<and> update_error r = None"
    unfolding acceptBooking_pattern guarded_success_iff using assms by auto
next
  assume ok: "status b = ''pending'' \<and> booking.provider_user_id b = uid \<and> update_error r = None"
  then show "fst (acceptBooking (Some uid) now i memo r) = Inr (i, ''accepted'')"
    using assms by (simp add: acceptBooking_pattern guarded_fetched)
  from ok assms
  have "fst (select_single i (snd (acceptBooking (Some uid) now i memo r)))
          = Inr (apply_payload
                   [(Status, Some ''accepted''), (Provider_notes, memo), (Accepted_at, Some now)] b)"
    by (simp add: acceptBooking_pattern guarded_fetched fetch_after_update)
  then show "\<exists>b'. fst (select_single i (snd (acceptBooking (Some uid) now i memo r))) = Inr b'
                \<and> status b' = ''accepted'' \<and> accepted_at b' = Some now
                \<and> provider_notes b' = (case memo of None \<Rightarrow> provider_notes b | Some n \<Rightarrow> Some n)"
    by (cases memo) simp_all
next
  assume no: "\<not> (status b = ''pending'' \<and> booking.provider_user_id b = uid)"
  then show "fst (acceptBooking (Some uid) now i memo r)
              = Inl (Error (if booking.provider_user_id b \<noteq> uid
                            then ''You are not authorized to accept this booking''
                            else ''This booking cannot be accepted''))"
    using assms by (auto simp add: acceptBooking_pattern guarded_fetched)
  from no show "updates_sent (snd (acceptBooking (Some uid) now i memo r)) = updates_sent r"
    using assms by (auto simp add: acceptBooking_pattern guarded_fetched updates_sent_simps)
  from no show "rows (snd (acceptBooking (Some uid) now i memo r)) = rows r"
    using assms by (auto simp add: acceptBooking_pattern guarded_fetched)
qed

theorem accept_succeeds_exactly_when_witness:
  "''u1'' \<noteq> []
   \<and> fst (select_single ''b1'' (scenario_store ''pending'' None)) = Inr (scenario_booking ''pending'')
   \<and> fst (acceptBooking (Some ''u1'') ''2025-01-01T00:00:00.000Z'' ''b1'' (Some ''ok'')
            (scenario_store ''pending'' None)) = Inr (''b1'', ''accepted'')
   \<and> fst (acceptBooking (Some ''u1'') ''2025-01-01T00:00:00.000Z'' ''b1'' (Some ''ok'')
            (scenario_store ''completed'' None)) = Inl (Error ''This booking cannot be accepted'')"
proof -
  have u: "''u1'' \<noteq> []" by simp
  show ?thesis
    using accept_succeeds_exactly_when [OF u scenario_fetch [of "''pending''" None],
        where now = "''2025-01-01T00:00:00.000Z''" and memo = "Some ''ok''"]
      accept_succeeds_exactly_when [OF u scenario_fetch [of "''completed''" None],
        where now = "''2025-01-01T00:00:00.000Z''" and memo = "Some ''ok''"]
    by (simp add: scenario_fetch scenario_fields)
qed

text \<open>
  The claim without the condition on the store fails: a pending booking of the caller's own
  is not accepted when the store rejects the update; the function throws the store's error.
\<close>

theorem accept_rejected_update_counterexample:
  "status (scenario_booking ''pending'') = ''pending''
   \<and> booking.provider_user_id (scenario_booking ''pending'') = ''u1''
   \<and> fst (select_single ''b1'' (scenario_store ''pending'' (Some ''connection lost'')))
       = Inr (scenario_booking ''pending'')
   \<and> fst (acceptBooking (Some ''u1'') ''2025-01-01T00:00:00.000Z'' ''b1'' (Some ''ok'')
            (scenario_store ''pending'' (Some ''connection lost'')))
       = Inl (Store_error ''connection lost'')"
  by (simp add: acceptBooking_def select_single_def update_eq_id_def
      scenario_store_def scenario_booking_def)

subsection \<open>Cancelling a booking\<close>

text \<open>
  C2, as amended. \<^verbatim>\<open>cancelBooking\<close>, invoked by the booking's provider-user on a booking
  the fetch delivers, succeeds from every status other than \<^verbatim>\<open>cancelled\<close> and
  \<^verbatim>\<open>completed\<close> (so from \<^verbatim>\<open>pending\<close>, \<^verbatim>\<open>accepted\<close> and \<^verbatim>\<open>in_progress\<close>) provided
  the store answers the update without an error; the row then has status \<^verbatim>\<open>cancelled\<close>,
  \<^verbatim>\<open>cancellation_reason\<close> set to the reason supplied and \<^verbatim>\<open>cancelled_at\<close> set to the
  time of the call. From \<^verbatim>\<open>cancelled\<close> and \<^verbatim>\<open>completed\<close> it throws the
  invalid-transition error, sends no update and leaves the table as it was.
\<close>

theorem cancel_succeeds_unless_terminal:
  assumes "uid \<noteq> []" and "fst (select_single i r) = Inr b"
    and "booking.provider_user_id b = uid"
  shows "(status b \<noteq> ''cancelled'' \<and> status b \<noteq> ''completed'' \<and> update_error r = None \<longrightarrow>
            fst (cancelBooking (Some uid) now i reason r) = Inr (i, ''cancelled'')
          \<and> (\<exists>b'. fst (select_single i (snd (cancelBooking (Some uid) now i reason r))) = Inr b'
                \<and> status b' = ''cancelled'' \<and> cancellation_reason b' = Some reason
                \<and> cancelled_at b' = Some now))
       \<and> (status b = ''cancelled'' \<or> status b = ''completed'' \<longrightarrow>
            fst (cancelBooking (Some uid) now i reason r)
              = Inl (Error ''This booking cannot be cancelled'')
          \<and> updates_sent (snd (cancelBooking (Some uid) now i reason r)) = updates_sent r
          \<and> rows (snd (cancelBooking (Some uid) now i reason r)) = rows r)"
proof (intro conjI impI)
  assume ok: "status b \<noteq> ''cancelled'' \<and> status b \<noteq> ''completed'' \<and> update_error r = None"
  then show "fst (cancelBooking (Some uid) now i reason r) = Inr (i, ''cancelled'')"
    using assms by (simp add: cancelBooking_pattern guarded_fetched)
  from ok assms
  have "fst (select_single i (snd (cancelBooking (Some uid) now i reason r)))
          = Inr (apply_payload
                   [(Status, Some ''cancelled''), (Cancellation_reason, Some reason),
                    (Cancelled_at, Some now)] b)"
    by (simp add: cancelBooking_pattern guarded_fetched fetch_after_update)
  then show "\<exists>b'. fst (select_single i (snd (cancelBooking (Some uid) now i reason r))) = Inr b'
                \<and> status b' = ''cancelled'' \<and> cancellation_reason b' = Some reason
                \<and> cancelled_at b' = Some now"
    by simp
next
  assume no: "status b = ''cancelled'' \<or> status b = ''completed''"
  then have out: "cancelBooking (Some uid) now i reason r
      = (Inl (Error ''This booking cannot be cancelled''),
         r\<lparr>requests := requests r @ [Select_single i]\<rparr>)"
    using assms by (auto simp add: cancelBooking_pattern guarded_fetched)
  show "fst (cancelBooking (Some uid) now i reason r)
          = Inl (Error ''This booking cannot be cancelled'')"
    by (simp add: out)
  show "updates_sent (snd (cancelBooking (Some uid) now i reason r)) = updates_sent r"
    by (simp add: out updates_sent_simps)
  show "rows (snd (cancelBooking (Some uid) now i reason r)) = rows r"
    by (simp add: out)
qed

theorem cancel_succeeds_unless_terminal_witness:
  "''u1'' \<noteq> []
   \<and> fst (select_single ''b1'' (scenario_store ''in_progress'' None))
       = Inr (scenario_booking ''in_progress'')
   \<and> booking.provider_user_id (scenario_booking ''in_progress'') = ''u1''
   \<and> fst (cancelBooking (Some ''u1'') ''2025-01-01T00:00:00.000Z'' ''b1'' ''no longer needed''
            (scenario_store ''in_progress'' None)) = Inr (''b1'', ''cancelled'')
   \<and> fst (cancelBooking (Some ''u1'') ''2025-01-01T00:00:00.000Z'' ''b1'' ''no longer needed''
            (scenario_store ''completed'' None))
       = Inl (Error ''This booking cannot be cancelled'')"
proof -
  have u: "''u1'' \<noteq> []" by simp
  show ?thesis
    using cancel_succeeds_unless_terminal [OF u scenario_fetch [of "''in_progress''" None]
        scenario_fields(2), where now = "''2025-01-01T00:00:00.000Z''"
        and reason = "''no longer needed''"]
      cancel_succeeds_unless_terminal [OF u scenario_fetch [of "''completed''" None]
        scenario_fields(2), where now = "''2025-01-01T00:00:00.000Z''"
        and reason = "''no longer needed''"]
    by (simp add: scenario_fetch scenario_fields)
qed

text \<open>
  The claim without the condition on the store fails: the provider's own pending booking is
  not cancelled when the store rejects the update; the function throws the store's error.
\<close>

theorem cancel_rejected_update_counterexample:
  "booking.provider_user_id (scenario_booking ''pending'') = ''u1''
   \<and> status (scenario_booking ''pending'') = ''pending''
   \<and> fst (select_single ''b1'' (scenario_store ''pending'' (Some ''connection lost'')))
       = Inr (scenario_booking ''pending'')
   \<and> fst (cancelBooking (Some ''u1'') ''2025-01-01T00:00:00.000Z'' ''b1'' ''no longer needed''
            (scenario_store ''pending'' (Some ''connection lost'')))
       = Inl (Store_error ''connection lost'')"
  by (simp add: cancelBooking_def select_single_def update_eq_id_def
      scenario_store_def scenario_booking_def)

subsection \<open>The order of the checks\<close>

text \<open>
  C3. Each of the four transitions checks in the same order and throws the error of the
  first check that fails: the authentication error when there is no caller, then the fetch
  error when the booking cannot be fetched, then the authorization error when the booking's
  \<^verbatim>\<open>provider_user_id\<close> is not the caller's id, then the invalid-transition error when the
  status violates the precondition. A booking of another provider whose status also
  violates the precondition gets the authorization error: the third conjunct of
  \<open>checks_in_order\<close> puts no condition on the status.
\<close>

theorem transitions_check_in_order:
  "checks_in_order (\<lambda>user i r. acceptBooking user now i memo r)
     ''You are not authorized to accept this booking''
     ''This booking cannot be accepted'' (\<lambda>s. s = ''pending'')
   \<and> checks_in_order (\<lambda>user i r. markInProgress user now i memo r)
     ''You are not authorized to update this booking''
     ''This booking cannot be marked as in progress'' (\<lambda>s. s = ''accepted'')
   \<and> checks_in_order (\<lambda>user i r. completeBooking user now i memo r)
     ''You are not authorized to complete this booking''
     ''This booking cannot be completed'' (\<lambda>s. s = ''in_progress'')
   \<and> checks_in_order (\<lambda>user i r. cancelBooking user now i reason r)
     ''You are not authorized to cancel this booking''
     ''This booking cannot be cancelled'' (\<lambda>s. s \<noteq> ''cancelled'' \<and> s \<noteq> ''completed'')"
proof (intro conjI)
  show "checks_in_order (\<lambda>user i r. acceptBooking user now i memo r)
     ''You are not authorized to accept this booking''
     ''This booking cannot be accepted'' (\<lambda>s. s = ''pending'')"
    using guarded_checks_in_order
      [of "''You are not authorized to accept this booking''" "''This booking cannot be accepted''"
        "\<lambda>s. s = ''pending''"]
    by (simp add: acceptBooking_pattern [abs_def])
  show "checks_in_order (\<lambda>user i r. markInProgress user now i memo r)
     ''You are not authorized to update this booking''
     ''This booking cannot be marked as in progress'' (\<lambda>s. s = ''accepted'')"
    using guarded_checks_in_order
      [of "''You are not authorized to update this booking''"
        "''This booking cannot be marked as in progress''" "\<lambda>s. s = ''accepted''"]
    by (simp add: markInProgress_pattern [abs_def])
  show "checks_in_order (\<lambda>user i r. completeBooking user now i memo r)
     ''You are not authorized to complete this booking''
     ''This booking cannot be completed'' (\<lambda>s. s = ''in_progress'')"
    using guarded_checks_in_order
      [of "''You are not authorized to complete this booking''"
        "''This booking cannot be completed''" "\<lambda>s. s = ''in_progress''"]
    by (simp add: completeBooking_pattern [abs_def])
  show "checks_in_order (\<lambda>user i r. cancelBooking user now i reason r)
     ''You are not authorized to cancel this booking''
     ''This booking cannot be cancelled'' (\<lambda>s. s \<noteq> ''cancelled'' \<and> s \<noteq> ''completed'')"
    using guarded_checks_in_order
      [of "''You are not authorized to cancel this booking''"
        "''This booking cannot be cancelled''" "\<lambda>s. s \<noteq> ''cancelled'' \<and> s \<noteq> ''completed''"]
    by (simp add: cancelBooking_pattern [abs_def])
qed

theorem transitions_check_in_order_witness:
  "acceptBooking None ''2025-01-01T00:00:00.000Z'' ''b1'' None (scenario_store ''completed'' None)
     = (Inl (Error ''User not authenticated''), scenario_store ''completed'' None)
   \<and> fst (select_single ''b9'' (scenario_store ''completed'' None)) = Inl ''PGRST116''
   \<and> fst (markInProgress (Some ''u2'') ''2025-01-01T00:00:00.000Z'' ''b9'' None
            (scenario_store ''completed'' None))
       = Inl (Error ''Failed to fetch booking details'')
   \<and> fst (select_single ''b1'' (scenario_store ''completed'' None))
       = Inr (scenario_booking ''completed'')
   \<and> booking.provider_user_id (scenario_booking ''completed'') \<noteq> ''u2''
   \<and> status (scenario_booking ''completed'') \<noteq> ''in_progress''
   \<and> fst (completeBooking (Some ''u2'') ''2025-01-01T00:00:00.000Z'' ''b1'' None
            (scenario_store ''completed'' None))
       = Inl (Error ''You are not authorized to complete this booking'')
   \<and> fst (cancelBooking (Some ''u1'') ''2025-01-01T00:00:00.000Z'' ''b1'' ''no longer needed''
            (scenario_store ''completed'' None))
       = Inl (Error ''This booking cannot be cancelled'')"
proof -
  note t = transitions_check_in_order [where now = "''2025-01-01T00:00:00.000Z''"
      and memo = None and reason = "''no longer needed''"]
  note ta = t [THEN conjunct1, unfolded checks_in_order_def]
  note tm = t [THEN conjunct2, THEN conjunct1, unfolded checks_in_order_def]
  note tc = t [THEN conjunct2, THEN conjunct2, THEN conjunct1, unfolded checks_in_order_def]
  note tx = t [THEN conjunct2, THEN conjunct2, THEN conjunct2, unfolded checks_in_order_def]
  have u1: "''u1'' \<noteq> []" and u2: "''u2'' \<noteq> []" by simp_all
  have p: "booking.provider_user_id (scenario_booking ''completed'') \<noteq> ''u2''"
    and q: "status (scenario_booking ''completed'') \<noteq> ''in_progress''"
    and q': "\<not> (status (scenario_booking ''completed'') \<noteq> ''cancelled''
                \<and> status (scenario_booking ''completed'') \<noteq> ''completed'')"
    by (simp_all add: scenario_fields)
  note missing = scenario_fetch_missing [of "''completed''" None]
  note fetched = scenario_fetch [of "''completed''" None]
  note a = ta [THEN conjunct1, rule_format, THEN conjunct1]
  note m = tm [THEN conjunct2, THEN conjunct1, rule_format, OF conjI [OF u2 missing]]
  note c = tc [THEN conjunct2, THEN conjunct2, THEN conjunct1, rule_format,
      OF conjI [OF u2 conjI [OF fetched p]]]
  note x = tx [THEN conjunct2, THEN conjunct2, THEN conjunct2, rule_format,
      OF conjI [OF u1 conjI [OF fetched conjI [OF scenario_fields(2) q']]]]
  show ?thesis
    by (intro conjI) (rule a m c x p q missing fetched)+
qed

subsection \<open>What a successful transition writes\<close>

text \<open>The frame of each transition, under the hypothesis that it succeeds.\<close>

lemma transition_frame:
  "(fst (acceptBooking user now i memo r) = Inr res \<longrightarrow>
      (\<exists>b b'. fst (select_single i r) = Inr b
         \<and> fst (select_single i (snd (acceptBooking user now i memo r))) = Inr b'
         \<and> updates_sent (snd (acceptBooking user now i memo r))
             = updates_sent r @
               [Update [(Status, Some ''accepted''), (Provider_notes, memo),
                        (Accepted_at, Some now)] i]
         \<and> written_only [Status, Provider_notes, Accepted_at] b b'
         \<and> status b' = ''accepted'' \<and> accepted_at b' = Some now
         \<and> provider_notes b' = (case memo of None \<Rightarrow> provider_notes b | Some n \<Rightarrow> Some n)))
 \<and> (fst (markInProgress user now i memo r) = Inr res \<longrightarrow>
      (\<exists>b b'. fst (select_single i r) = Inr b
         \<and> fst (select_single i (snd (markInProgress user now i memo r))) = Inr b'
         \<and> updates_sent (snd (markInProgress user now i memo r))
             = updates_sent r @
               [Update [(Status, Some ''in_progress''), (Provider_notes, memo),
                        (Started_at, Some now)] i]
         \<and> written_only [Status, Provider_notes, Started_at] b b'
         \<and> status b' = ''in_progress'' \<and> started_at b' = Some now
         \<and> provider_notes b' = (case memo of None \<Rightarrow> provider_notes b | Some n \<Rightarrow> Some n)))
 \<and> (fst (completeBooking user now i memo r) = Inr res \<longrightarrow>
      (\<exists>b b'. fst (select_single i r) = Inr b
         \<and> fst (select_single i (snd (completeBooking user now i memo r))) = Inr b'
         \<and> updates_sent (snd (completeBooking user now i memo r))
             = updates_sent r @
               [Update [(Status, Some ''completed''), (Provider_notes, memo),
                        (Completed_at, Some now)] i]
         \<and> written_only [Status, Provider_notes, Completed_at] b b'
         \<and> status b' = ''completed'' \<and> completed_at b' = Some now
         \<and> provider_notes b' = (case memo of None \<Rightarrow> provider_notes b | Some n \<Rightarrow> Some n)))
 \<and> (fst (cancelBooking user now i reason r) = Inr res \<longrightarrow>
      (\<exists>b b'. fst (select_single i r) = Inr b
         \<and> fst (select_single i (snd (cancelBooking user now i reason r))) = Inr b'
         \<and> updates_sent (snd (cancelBooking user now i reason r))
             = updates_sent r @
               [Update [(Status, Some ''cancelled''), (Cancellation_reason, Some reason),
                        (Cancelled_at, Some now)] i]
         \<and> written_only [Status, Cancellation_reason, Cancelled_at] b b'
         \<and> status b' = ''cancelled'' \<and> cancelled_at b' = Some now
         \<and> cancellation_reason b' = Some reason))"
proof (intro conjI impI)
    assume "fst (acceptBooking user now i memo r) = Inr res"
    from guarded_success_frame [OF this [unfolded acceptBooking_pattern]]
    obtain b where "fst (select_single i r) = Inr b"
      "fst (select_single i (snd (acceptBooking user now i memo r)))
         = Inr (apply_payload [(Status, Some ''accepted''), (Provider_notes, memo),
                               (Accepted_at, Some now)] b)"
      "updates_sent (snd (acceptBooking user now i memo r))
         = updates_sent r @ [Update [(Status, Some ''accepted''), (Provider_notes, memo),
                                     (Accepted_at, Some now)] i]"
      unfolding acceptBooking_pattern by auto
    moreover have "written_only [Status, Provider_notes, Accepted_at] b
        (apply_payload [(Status, Some ''accepted''), (Provider_notes, memo),
                        (Accepted_at, Some now)] b)"
      using written_only_apply_payload
        [of "[(Status, Some ''accepted''), (Provider_notes, memo), (Accepted_at, Some now)]" b]
      by simp
    ultimately show "\<exists>b b'. fst (select_single i r) = Inr b
         \<and> fst (select_single i (snd (acceptBooking user now i memo r))) = Inr b'
         \<and> updates_sent (snd (acceptBooking user now i memo r))
             = updates_sent r @
               [Update [(Status, Some ''accepted''), (Provider_notes, memo),
                        (Accepted_at, Some now)] i]
         \<and> written_only [Status, Provider_notes, Accepted_at] b b'
         \<and> status b' = ''accepted'' \<and> accepted_at b' = Some now
         \<and> provider_notes b' = (case memo of None \<Rightarrow> provider_notes b | Some n \<Rightarrow> Some n)"
      by (cases memo) simp_all
  next
    assume "fst (markInProgress user now i memo r) = Inr res"
    from guarded_success_frame [OF this [unfolded markInProgress_pattern]]
    obtain b where "fst (select_single i r) = Inr b"
      "fst (select_single i (snd (markInProgress user now i memo r)))
         = Inr (apply_payload [(Status, Some ''in_progress''), (Provider_notes, memo),
                               (Started_at, Some now)] b)"
      "updates_sent (snd (markInProgress user now i memo r))
         = updates_sent r @ [Update [(Status, Some ''in_progress''), (Provider_notes, memo),
                                     (Started_at, Some now)] i]"
      unfolding markInProgress_pattern by auto
    moreover have "written_only [Status, Provider_notes, Started_at] b
        (apply_payload [(Status, Some ''in_progress''), (Provider_notes, memo),
                        (Started_at, Some now)] b)"
      using written_only_apply_payload
        [of "[(Status, Some ''in_progress''), (Provider_notes, memo), (Started_at, Some now)]" b]
      by simp
    ultimately show "\<exists>b b'. fst (select_single i r) = Inr b
         \<and> fst (select_single i (snd (markInProgress user now i memo r))) = Inr b'
         \<and> updates_sent (snd (markInProgress user now i memo r))
             = updates_sent r @
               [Update [(Status, Some ''in_progress''), (Provider_notes, memo),
                        (Started_at, Some now)] i]
         \<and> written_only [Status, Provider_notes, Started_at] b b'
         \<and> status b' = ''in_progress'' \<and> started_at b' = Some now
         \<and> provider_notes b' = (case memo of None \<Rightarrow> provider_notes b | Some n \<Rightarrow> Some n)"
      by (cases memo) simp_all
  next
    assume "fst (completeBooking user now i memo r) = Inr res"
    from guarded_success_frame [OF this [unfolded completeBooking_pattern]]
    obtain b where "fst (select_single i r) = Inr b"
      "fst (select_single i (snd (completeBooking user now i memo r)))
         = Inr (apply_payload [(Status, Some ''completed''), (Provider_notes, memo),
                               (Completed_at, Some now)] b)"
      "updates_sent (snd (completeBooking user now i memo r))
         = updates_sent r @ [Update [(Status, Some ''completed''), (Provider_notes, memo),
                                     (Completed_at, Some now)] i]"
      unfolding completeBooking_pattern by auto
    moreover have "written_only [Status, Provider_notes, Completed_at] b
        (apply_payload [(Status, Some ''completed''), (Provider_notes, memo),
                        (Completed_at, Some now)] b)"
      using written_only_apply_payload
        [of "[(Status, Some ''completed''), (Provider_notes, memo), (Completed_at, Some now)]" b]
      by simp
    ultimately show "\<exists>b b'. fst (select_single i r) = Inr b
         \<and> fst (select_single i (snd (completeBooking user now i memo r))) = Inr b'
         \<and> updates_sent (snd (completeBooking user now i memo r))
             = updates_sent r @
               [Update [(Status, Some ''completed''), (Provider_notes, memo),
                        (Completed_at, Some now)] i]
         \<and> written_only [Status, Provider_notes, Completed_at] b b'
         \<and> status b' = ''completed'' \<and> completed_at b' = Some now
         \<and> provider_notes b' = (case memo of None \<Rightarrow> provider_notes b | Some n \<Rightarrow> Some n)"
      by (cases memo) simp_all
  next
    assume "fst (cancelBooking user now i reason r) = Inr res"
    from guarded_success_frame [OF this [unfolded cancelBooking_pattern]]
    obtain b where "fst (select_single i r) = Inr b"
      "fst (select_single i (snd (cancelBooking user now i reason r)))
         = Inr (apply_payload [(Status, Some ''cancelled''), (Cancellation_reason, Some reason),
                               (Cancelled_at, Some now)] b)"
      "updates_sent (snd (cancelBooking user now i reason r))
         = updates_sent r @ [Update [(Status, Some ''cancelled''),
                                     (Cancellation_reason, Some reason),
                                     (Cancelled_at, Some now)] i]"
      unfolding cancelBooking_pattern by auto
    moreover have "written_only [Status, Cancellation_reason, Cancelled_at] b
        (apply_payload [(Status, Some ''cancelled''), (Cancellation_reason, Some reason),
                        (Cancelled_at, Some now)] b)"
      using written_only_apply_payload
        [of "[(Status, Some ''cancelled''), (Cancellation_reason, Some reason),
              (Cancelled_at, Some now)]" b]
      by simp
    ultimately show "\<exists>b b'. fst (select_single i r) = Inr b
         \<and> fst (select_single i (snd (cancelBooking user now i reason r))) = Inr b'
         \<and> updates_sent (snd (cancelBooking user now i reason r))
             = updates_sent r @
               [Update [(Status, Some ''cancelled''), (Cancellation_reason, Some reason),
                        (Cancelled_at, Some now)] i]
         \<and> written_only [Status, Cancellation_reason, Cancelled_at] b b'
         \<and> status b' = ''cancelled'' \<and> cancelled_at b' = Some now
         \<and> cancellation_reason b' = Some reason"
      by simp
qed

text \<open>
  C4, as amended. A transition succeeds exactly when the caller is signed in, the fetch
  delivers the booking, the booking is the caller's, the status meets the precondition and
  the store accepts the update. Whenever it succeeds, the one update it has sent names the
  new status and the two fields of its row in the table of the specification (accept:
  \<^verbatim>\<open>provider_notes\<close>, \<^verbatim>\<open>accepted_at\<close>; start: \<^verbatim>\<open>provider_notes\<close>, \<^verbatim>\<open>started_at\<close>;
  complete: \<^verbatim>\<open>provider_notes\<close>, \<^verbatim>\<open>completed_at\<close>; cancel: \<^verbatim>\<open>cancellation_reason\<close>,
  \<^verbatim>\<open>cancelled_at\<close>) and nothing else. In the row afterwards the status and the time stamp
  (for cancel also the reason) are written; \<^verbatim>\<open>provider_notes\<close> is written when notes are
  supplied and keeps what it held when they are omitted; no other column differs from the
  fetched row.
\<close>

theorem successful_transition_writes:
  "(((\<exists>res. fst (acceptBooking user now i memo r) = Inr res) \<longleftrightarrow>
       (\<exists>uid b. user = Some uid \<and> uid \<noteq> [] \<and> fst (select_single i r) = Inr b
          \<and> booking.provider_user_id b = uid \<and> status b = ''pending''
          \<and> update_error r = None))
   \<and> (fst (acceptBooking user now i memo r) = Inr res \<longrightarrow>
      (\<exists>b b'. fst (select_single i r) = Inr b
         \<and> fst (select_single i (snd (acceptBooking user now i memo r))) = Inr b'
         \<and> updates_sent (snd (acceptBooking user now i memo r))
             = updates_sent r @
               [Update [(Status, Some ''accepted''), (Provider_notes, memo),
                        (Accepted_at, Some now)] i]
         \<and> written_only [Status, Provider_notes, Accepted_at] b b'
         \<and> status b' = ''accepted'' \<and> accepted_at b' = Some now
         \<and> provider_notes b' = (case memo of None \<Rightarrow> provider_notes b | Some n \<Rightarrow> Some n))))
 \<and> (((\<exists>res. fst (markInProgress user now i memo r) = Inr res) \<longleftrightarrow>
       (\<exists>uid b. user = Some uid \<and> uid \<noteq> [] \<and> fst (select_single i r) = Inr b
          \<and> booking.provider_user_id b = uid \<and> status b = ''accepted''
          \<and> update_error r = None))
   \<and> (fst (markInProgress user now i memo r) = Inr res \<longrightarrow>
      (\<exists>b b'. fst (select_single i r) = Inr b
         \<and> fst (select_single i (snd (markInProgress user now i memo r))) = Inr b'
         \<and> updates_sent (snd (markInProgress user now i memo r))
             = updates_sent r @
               [Update [(Status, Some ''in_progress''), (Provider_notes, memo),
                        (Started_at, Some now)] i]
         \<and> written_only [Status, Provider_notes, Started_at] b b'
         \<and> status b' = ''in_progress'' \<and> started_at b' = Some now
         \<and> provider_notes b' = (case memo of None \<Rightarrow> provider_notes b | Some n \<Rightarrow> Some n))))
 \<and> (((\<exists>res. fst (completeBooking user now i memo r) = Inr res) \<longleftrightarrow>
       (\<exists>uid b. user = Some uid \<and> uid \<noteq> [] \<and> fst (select_single i r) = Inr b
          \<and> booking.provider_user_id b = uid \<and> status b = ''in_progress''
          \<and> update_error r = None))
   \<and> (fst (completeBooking user now i memo r) = Inr res \<longrightarrow>
      (\<exists>b b'. fst (select_single i r) = Inr b
         \<and> fst (select_single i (snd (completeBooking user now i memo r))) = Inr b'
         \<and> updates_sent (snd (completeBooking user now i memo r))
             = updates_sent r @
               [Update [(Status, Some ''completed''), (Provider_notes, memo),
                        (Completed_at, Some now)] i]
         \<and> written_only [Status, Provider_notes, Completed_at] b b'
         \<and> status b' = ''completed'' \<and> completed_at b' = Some now
         \<and> provider_notes b' = (case memo of None \<Rightarrow> provider_notes b | Some n \<Rightarrow> Some n))))
 \<and> (((\<exists>res. fst (cancelBooking user now i reason r) = Inr res) \<longleftrightarrow>
       (\<exists>uid b. user = Some uid \<and> uid \<noteq> [] \<and> fst (select_single i r) = Inr b
          \<and> booking.provider_user_id b = uid \<and> status b \<noteq> ''cancelled'' \<and> status b \<noteq> ''completed''
          \<and> update_error r = None))
   \<and> (fst (cancelBooking user now i reason r) = Inr res \<longrightarrow>
      (\<exists>b b'. fst (select_single i r) = Inr b
         \<and> fst (select_single i (snd (cancelBooking user now i reason r))) = Inr b'
         \<and> updates_sent (snd (cancelBooking user now i reason r))
             = updates_sent r @
               [Update [(Status, Some ''cancelled''), (Cancellation_reason, Some reason),
                        (Cancelled_at, Some now)] i]
         \<and> written_only [Status, Cancellation_reason, Cancelled_at] b b'
         \<and> status b' = ''cancelled'' \<and> cancelled_at b' = Some now
         \<and> cancellation_reason b' = Some reason)))"
proof -
  note f = transition_frame [of user now i memo r res reason]
  have s1: "(\<exists>res. fst (acceptBooking user now i memo r) = Inr res) \<longleftrightarrow>
       (\<exists>uid b. user = Some uid \<and> uid \<noteq> [] \<and> fst (select_single i r) = Inr b
          \<and> booking.provider_user_id b = uid \<and> status b = ''pending''
          \<and> update_error r = None)"
    unfolding acceptBooking_pattern guarded_success_iff by simp
  have s2: "(\<exists>res. fst (markInProgress user now i memo r) = Inr res) \<longleftrightarrow>
       (\<exists>uid b. user = Some uid \<and> uid \<noteq> [] \<and> fst (select_single i r) = Inr b
          \<and> booking.provider_user_id b = uid \<and> status b = ''accepted''
          \<and> update_error r = None)"
    unfolding markInProgress_pattern guarded_success_iff by simp
  have s3: "(\<exists>res. fst (completeBooking user now i memo r) = Inr res) \<longleftrightarrow>
       (\<exists>uid b. user = Some uid \<and> uid \<noteq> [] \<and> fst (select_single i r) = Inr b
          \<and> booking.provider_user_id b = uid \<and> status b = ''in_progress''
          \<and> update_error r = None)"
    unfolding completeBooking_pattern guarded_success_iff by simp
  have s4: "(\<exists>res. fst (cancelBooking user now i reason r) = Inr res) \<longleftrightarrow>
       (\<exists>uid b. user = Some uid \<and> uid \<noteq> [] \<and> fst (select_single i r) = Inr b
          \<and> booking.provider_user_id b = uid \<and> status b \<noteq> ''cancelled'' \<and> status b \<noteq> ''completed''
          \<and> update_error r = None)"
    unfolding cancelBooking_pattern guarded_success_iff by simp
  show ?thesis
    by (intro conjI)
      (rule s1 s2 s3 s4 f [THEN conjunct1] f [THEN conjunct2, THEN conjunct1]
         f [THEN conjunct2, THEN conjunct2, THEN conjunct1]
         f [THEN conjunct2, THEN conjunct2, THEN conjunct2])+
qed

theorem successful_transition_writes_witness:
  "fst (acceptBooking (Some ''u1'') ''2025-01-01T00:00:00.000Z'' ''b1'' (Some ''ok'')
          (scenario_store ''pending'' None)) = Inr (''b1'', ''accepted'')
   \<and> (\<exists>b'. fst (select_single ''b1''
                 (snd (acceptBooking (Some ''u1'') ''2025-01-01T00:00:00.000Z'' ''b1'' (Some ''ok'')
          (scenario_store ''pending'' None)))) = Inr b'
          \<and> written_only [Status, Provider_notes, Accepted_at] (scenario_booking ''pending'') b'
          \<and> status b' = ''accepted''
          \<and> accepted_at b' = Some ''2025-01-01T00:00:00.000Z'')
   \<and> fst (markInProgress (Some ''u1'') ''2025-01-01T00:00:00.000Z'' ''b1'' (Some ''on my way'')
          (scenario_store ''accepted'' None)) = Inr (''b1'', ''in_progress'')
   \<and> (\<exists>b'. fst (select_single ''b1''
                 (snd (markInProgress (Some ''u1'') ''2025-01-01T00:00:00.000Z'' ''b1'' (Some ''on my way'')
          (scenario_store ''accepted'' None)))) = Inr b'
          \<and> written_only [Status, Provider_notes, Started_at] (scenario_booking ''accepted'') b'
          \<and> status b' = ''in_progress''
          \<and> started_at b' = Some ''2025-01-01T00:00:00.000Z'')
   \<and> fst (completeBooking (Some ''u1'') ''2025-01-01T00:00:00.000Z'' ''b1'' None
          (scenario_store ''in_progress'' None)) = Inr (''b1'', ''completed'')
   \<and> (\<exists>b'. fst (select_single ''b1''
                 (snd (completeBooking (Some ''u1'') ''2025-01-01T00:00:00.000Z'' ''b1'' None
          (scenario_store ''in_progress'' None)))) = Inr b'
          \<and> written_only [Status, Provider_notes, Completed_at] (scenario_booking ''in_progress'') b'
          \<and> status b' = ''completed''
          \<and> completed_at b' = Some ''2025-01-01T00:00:00.000Z'')
   \<and> fst (cancelBooking (Some ''u1'') ''2025-01-01T00:00:00.000Z'' ''b1'' ''no longer needed''
          (scenario_store ''pending'' None)) = Inr (''b1'', ''cancelled'')
   \<and> (\<exists>b'. fst (select_single ''b1''
                 (snd (cancelBooking (Some ''u1'') ''2025-01-01T00:00:00.000Z'' ''b1'' ''no longer needed''
          (scenario_store ''pending'' None)))) = Inr b'
          \<and> written_only [Status, Cancellation_reason, Cancelled_at] (scenario_booking ''pending'') b'
          \<and> status b' = ''cancelled''
          \<and> cancelled_at b' = Some ''2025-01-01T00:00:00.000Z'')"
proof -
  have s1: "fst (acceptBooking (Some ''u1'') ''2025-01-01T00:00:00.000Z'' ''b1'' (Some ''ok'')
          (scenario_store ''pending'' None)) = Inr (''b1'', ''accepted'')"
    by (simp add: acceptBooking_def select_single_def update_eq_id_def
        scenario_store_def scenario_booking_def)
  from successful_transition_writes [THEN conjunct1, THEN conjunct2, rule_format, OF s1]
  obtain b1 b1' where h1: "fst (select_single ''b1'' (scenario_store ''pending'' None)) = Inr b1"
    "fst (select_single ''b1''
        (snd (acceptBooking (Some ''u1'') ''2025-01-01T00:00:00.000Z'' ''b1'' (Some ''ok'')
          (scenario_store ''pending'' None)))) = Inr b1'"
    "written_only [Status, Provider_notes, Accepted_at] b1 b1'"
    "status b1' = ''accepted''" "accepted_at b1' = Some ''2025-01-01T00:00:00.000Z''"
    by (elim exE conjE)
  from h1(1) have e1: "b1 = scenario_booking ''pending''"
    by (simp add: scenario_fetch)
  have w1: "fst (acceptBooking (Some ''u1'') ''2025-01-01T00:00:00.000Z'' ''b1'' (Some ''ok'')
          (scenario_store ''pending'' None)) = Inr (''b1'', ''accepted'')
   \<and> (\<exists>b'. fst (select_single ''b1''
                 (snd (acceptBooking (Some ''u1'') ''2025-01-01T00:00:00.000Z'' ''b1'' (Some ''ok'')
          (scenario_store ''pending'' None)))) = Inr b'
          \<and> written_only [Status, Provider_notes, Accepted_at] (scenario_booking ''pending'') b'
          \<and> status b' = ''accepted''
          \<and> accepted_at b' = Some ''2025-01-01T00:00:00.000Z'')"
    using s1 h1(2-5) unfolding e1 by simp
  have s2: "fst (markInProgress (Some ''u1'') ''2025-01-01T00:00:00.000Z'' ''b1'' (Some ''on my way'')
          (scenario_store ''accepted'' None)) = Inr (''b1'', ''in_progress'')"
    by (simp add: markInProgress_def select_single_def update_eq_id_def
        scenario_store_def scenario_booking_def)
  from successful_transition_writes [THEN conjunct2, THEN conjunct1, THEN conjunct2, rule_format, OF s2]
  obtain b2 b2' where h2: "fst (select_single ''b1'' (scenario_store ''accepted'' None)) = Inr b2"
    "fst (select_single ''b1''
        (snd (markInProgress (Some ''u1'') ''2025-01-01T00:00:00.000Z'' ''b1'' (Some ''on my way'')
          (scenario_store ''accepted'' None)))) = Inr b2'"
    "written_only [Status, Provider_notes, Started_at] b2 b2'"
    "status b2' = ''in_progress''" "started_at b2' = Some ''2025-01-01T00:00:00.000Z''"
    by (elim exE conjE)
  from h2(1) have e2: "b2 = scenario_booking ''accepted''"
    by (simp add: scenario_fetch)
  have w2: "fst (markInProgress (Some ''u1'') ''2025-01-01T00:00:00.000Z'' ''b1'' (Some ''on my way'')
          (scenario_store ''accepted'' None)) = Inr (''b1'', ''in_progress'')
   \<and> (\<exists>b'. fst (select_single ''b1''
                 (snd (markInProgress (Some ''u1'') ''2025-01-01T00:00:00.000Z'' ''b1'' (Some ''on my way'')
          (scenario_store ''accepted'' None)))) = Inr b'
          \<and> written_only [Status, Provider_notes, Started_at] (scenario_booking ''accepted'') b'
          \<and> status b' = ''in_progress''
          \<and> started_at b' = Some ''2025-01-01T00:00:00.000Z'')"
    using s2 h2(2-5) unfolding e2 by simp
  have s3: "fst (completeBooking (Some ''u1'') ''2025-01-01T00:00:00.000Z'' ''b1'' None
          (scenario_store ''in_progress'' None)) = Inr (''b1'', ''completed'')"
    by (simp add: completeBooking_def select_single_def update_eq_id_def
        scenario_store_def scenario_booking_def)
  from successful_transition_writes [THEN conjunct2, THEN conjunct2, THEN conjunct1, THEN conjunct2, rule_format, OF s3]
  obtain b3 b3' where h3: "fst (select_single ''b1'' (scenario_store ''in_progress'' None)) = Inr b3"
    "fst (select_single ''b1''
        (snd (completeBooking (Some ''u1'') ''2025-01-01T00:00:00.000Z'' ''b1'' None
          (scenario_store ''in_progress'' None)))) = Inr b3'"
    "written_only [Status, Provider_notes, Completed_at] b3 b3'"
    "status b3' = ''completed''" "completed_at b3' = Some ''2025-01-01T00:00:00.000Z''"
    by (elim exE conjE)
  from h3(1) have e3: "b3 = scenario_booking ''in_progress''"
    by (simp add: scenario_fetch)
  have w3: "fst (completeBooking (Some ''u1'') ''2025-01-01T00:00:00.000Z'' ''b1'' None
          (scenario_store ''in_progress'' None)) = Inr (''b1'', ''completed'')
   \<and> (\<exists>b'. fst (select_single ''b1''
                 (snd (completeBooking (Some ''u1'') ''2025-01-01T00:00:00.000Z'' ''b1'' None
          (scenario_store ''in_progress'' None)))) = Inr b'
          \<and> written_only [Status, Provider_notes, Completed_at] (scenario_booking ''in_progress'') b'
          \<and> status b' = ''completed''
          \<and> completed_at b' = Some ''2025-01-01T00:00:00.000Z'')"
    using s3 h3(2-5) unfolding e3 by simp
  have s4: "fst (cancelBooking (Some ''u1'') ''2025-01-01T00:00:00.000Z'' ''b1'' ''no longer needed''
          (scenario_store ''pending'' None)) = Inr (''b1'', ''cancelled'')"
    by (simp add: cancelBooking_def select_single_def update_eq_id_def
        scenario_store_def scenario_booking_def)
  from successful_transition_writes [THEN conjunct2, THEN conjunct2, THEN conjunct2, THEN conjunct2, rule_format, OF s4]
  obtain b4 b4' where h4: "fst (select_single ''b1'' (scenario_store ''pending'' None)) = Inr b4"
    "fst (select_single ''b1''
        (snd (cancelBooking (Some ''u1'') ''2025-01-01T00:00:00.000Z'' ''b1'' ''no longer needed''
          (scenario_store ''pending'' None)))) = Inr b4'"
    "written_only [Status, Cancellation_reason, Cancelled_at] b4 b4'"
    "status b4' = ''cancelled''" "cancelled_at b4' = Some ''2025-01-01T00:00:00.000Z''"
    by (elim exE conjE)
  from h4(1) have e4: "b4 = scenario_booking ''pending''"
    by (simp add: scenario_fetch)
  have w4: "fst (cancelBooking (Some ''u1'') ''2025-01-01T00:00:00.000Z'' ''b1'' ''no longer needed''
          (scenario_store ''pending'' None)) = Inr (''b1'', ''cancelled'')
   \<and> (\<exists>b'. fst (select_single ''b1''
                 (snd (cancelBooking (Some ''u1'') ''2025-01-01T00:00:00.000Z'' ''b1'' ''no longer needed''
          (scenario_store ''pending'' None)))) = Inr b'
          \<and> written_only [Status, Cancellation_reason, Cancelled_at] (scenario_booking ''pending'') b'
          \<and> status b' = ''cancelled''
          \<and> cancelled_at b' = Some ''2025-01-01T00:00:00.000Z'')"
    using s4 h4(2-5) unfolding e4 by simp
  from w1 w2 w3 w4 show ?thesis by simp
qed

text \<open>
  The claim as stated fails where the optional notes are omitted: the start transition
  succeeds on an accepted booking whose \<^verbatim>\<open>provider_notes\<close> hold \<^verbatim>\<open>ok\<close>, its update
  names \<^verbatim>\<open>provider_notes\<close> with no value, and the row afterwards still holds \<^verbatim>\<open>ok\<close>:
  of the two listed fields only \<^verbatim>\<open>started_at\<close> is written.
\<close>

theorem start_without_notes_counterexample:
  "fst (markInProgress (Some ''u1'') ''2025-01-01T00:00:00.000Z'' ''b1'' None
          ((scenario_store ''accepted'' None)
            \<lparr>rows := [(scenario_booking ''accepted'')\<lparr>provider_notes := Some ''ok''\<rparr>]\<rparr>)) = Inr (''b1'', ''in_progress'')
   \<and> updates_sent (snd (markInProgress (Some ''u1'') ''2025-01-01T00:00:00.000Z'' ''b1'' None
          ((scenario_store ''accepted'' None)
            \<lparr>rows := [(scenario_booking ''accepted'')\<lparr>provider_notes := Some ''ok''\<rparr>]\<rparr>)))
       = [Update [(Status, Some ''in_progress''), (Provider_notes, None),
                  (Started_at, Some ''2025-01-01T00:00:00.000Z'')] ''b1'']
   \<and> fst (select_single ''b1''
          (snd (markInProgress (Some ''u1'') ''2025-01-01T00:00:00.000Z'' ''b1'' None
          ((scenario_store ''accepted'' None)
            \<lparr>rows := [(scenario_booking ''accepted'')\<lparr>provider_notes := Some ''ok''\<rparr>]\<rparr>))))
       = Inr ((scenario_booking ''in_progress'')
                \<lparr>provider_notes := Some ''ok'', started_at := Some ''2025-01-01T00:00:00.000Z''\<rparr>)"
  by (simp add: markInProgress_def select_single_def update_eq_id_def updates_sent_def
      scenario_store_def scenario_booking_def)

section \<open>Properties of the favorites hook\<close>

subsection \<open>The paths of the operations\<close>

lemma find_provider_None:
  "find (\<lambda>fav. favorite.provider_user_id fav = p) fs = None
     \<longleftrightarrow> p \<notin> favorite.provider_user_id ` set fs"
  by (auto simp add: find_None_iff)

lemma addToFavorites_unauthenticated:
  "user = None \<or> user = Some [] \<Longrightarrow>
   addToFavorites user seen p ans h =
     (False, show_toast \<lparr>title = ''Authentication Required'',
                description = ''Please log in to add favorites.'',
                variant = Some ''destructive''\<rparr> h)"
  by (auto simp add: addToFavorites_def)

lemma addToFavorites_duplicate:
  "uid \<noteq> [] \<Longrightarrow> p \<in> favorite.provider_user_id ` set seen \<Longrightarrow>
   addToFavorites (Some uid) seen p ans h =
     (False, show_toast \<lparr>title = ''Already in Favorites'',
                description = ''This provider is already in your favorites.'',
                variant = Some ''destructive''\<rparr> h)"
  using find_provider_None [of p seen]
  by (auto simp add: addToFavorites_def split: option.splits)

lemma addToFavorites_sent:
  "uid \<noteq> [] \<Longrightarrow> p \<notin> favorite.provider_user_id ` set seen \<Longrightarrow>
   addToFavorites (Some uid) seen p ans h =
     (case ans of
        Data d \<Rightarrow>
          (True, show_toast \<lparr>title = ''Added to Favorites'',
                    description = ''Provider has been added to your favorites.'',
                    variant = None\<rparr>
                   (h\<lparr>fav_requests := fav_requests h @ [Insert_favorite uid p],
                      favorites := favorites h @ [d]\<rparr>))
      | Failed e \<Rightarrow>
          (False, show_toast \<lparr>title = ''Error'',
                     description = ''Failed to add to favorites. Please try again.'',
                     variant = Some ''destructive''\<rparr>
                    (h\<lparr>fav_requests := fav_requests h @ [Insert_favorite uid p]\<rparr>))
      | Thrown e \<Rightarrow>
          (False, show_toast \<lparr>title = ''Error'',
                     description = ''Failed to add to favorites. Please try again.'',
                     variant = Some ''destructive''\<rparr>
                    (h\<lparr>fav_requests := fav_requests h @ [Insert_favorite uid p]\<rparr>)))"
  using find_provider_None [of p seen]
  by (simp add: addToFavorites_def Let_def split: answer.splits)

lemma addToFavorites_True_iff:
  "fst (addToFavorites user seen p ans h) \<longleftrightarrow>
     (\<exists>uid d. user = Some uid \<and> uid \<noteq> []
        \<and> p \<notin> favorite.provider_user_id ` set seen \<and> ans = Data d)"
proof (cases "user = None \<or> user = Some []")
  case True
  then show ?thesis by (auto simp add: addToFavorites_unauthenticated)
next
  case False
  then obtain uid where u: "user = Some uid" "uid \<noteq> []" by (cases user) auto
  show ?thesis
  proof (cases "p \<in> favorite.provider_user_id ` set seen")
    case True
    with u show ?thesis by (simp add: addToFavorites_duplicate)
  next
    case False
    with u show ?thesis by (cases ans) (simp_all add: addToFavorites_sent)
  qed
qed

lemma removeFromFavorites_unauthenticated:
  "user = None \<or> user = Some [] \<Longrightarrow> removeFromFavorites user p ans h = (False, h)"
  by (auto simp add: removeFromFavorites_def)

lemma removeFromFavorites_sent:
  "uid \<noteq> [] \<Longrightarrow>
   removeFromFavorites (Some uid) p ans h =
     (case ans of
        Data d \<Rightarrow>
          (True, show_toast \<lparr>title = ''Removed from Favorites'',
                    description = ''Provider has been removed from your favorites.'',
                    variant = None\<rparr>
                   (h\<lparr>fav_requests := fav_requests h @ [Delete_favorite uid p],
                      favorites := filter (\<lambda>fav. favorite.provider_user_id fav \<noteq> p) (favorites h)\<rparr>))
      | Failed e \<Rightarrow>
          (False, show_toast \<lparr>title = ''Error'',
                     description = ''Failed to remove from favorites. Please try again.'',
                     variant = Some ''destructive''\<rparr>
                    (h\<lparr>fav_requests := fav_requests h @ [Delete_favorite uid p]\<rparr>))
      | Thrown e \<Rightarrow>
          (False, show_toast \<lparr>title = ''Error'',
                     description = ''Failed to remove from favorites. Please try again.'',
                     variant = Some ''destructive''\<rparr>
                    (h\<lparr>fav_requests := fav_requests h @ [Delete_favorite uid p]\<rparr>)))"
  by (simp add: removeFromFavorites_def Let_def split: answer.splits)

lemma removeFromFavorites_True_iff:
  "fst (removeFromFavorites user p ans h) \<longleftrightarrow>
     (\<exists>uid. user = Some uid \<and> uid \<noteq> [] \<and> ans = Data ())"
proof (cases "user = None \<or> user = Some []")
  case True
  then show ?thesis by (auto simp add: removeFromFavorites_unauthenticated)
next
  case False
  then obtain uid where u: "user = Some uid" "uid \<noteq> []" by (cases user) auto
  then show ?thesis by (cases ans) (simp_all add: removeFromFavorites_sent)
qed

lemma show_toast_fields:
  "favorites (show_toast t h) = favorites h"
  "fav_requests (show_toast t h) = fav_requests h"
  "loading (show_toast t h) = loading h"
  "toasts (show_toast t h) = toasts h @ [t]"
  by (simp_all add: show_toast_def)

lemma scenario_hook_fields:
  "favorites (scenario_hook fs) = fs"
  "toasts (scenario_hook fs) = []"
  "fav_requests (scenario_hook fs) = []"
  "favorite.provider_user_id (scenario_favorite i p) = p"
  by (simp_all add: scenario_hook_def scenario_favorite_def)

subsection \<open>Adding a provider that is already a favorite\<close>




subsection \<open>Membership after adding and removing\<close>

text \<open>
  C6. Right after \<^verbatim>\<open>addToFavorites(p)\<close> has returned \<^verbatim>\<open>true\<close>, \<^verbatim>\<open>isFavorite(p)\<close>
  holds, provided the record the insert returned carries \<^verbatim>\<open>provider_user_id\<close> \<open>p\<close>; right
  after \<^verbatim>\<open>removeFromFavorites(p)\<close> has returned \<^verbatim>\<open>true\<close>, \<^verbatim>\<open>isFavorite(p)\<close> does not
  hold. \<^verbatim>\<open>isFavorite\<close> is read on the state the operation leaves; the add half holds
  whatever list the callback captured.
\<close>

theorem isFavorite_after_add_and_remove:
  "(fst (addToFavorites user seen p ans h) \<and> (\<forall>d. ans = Data d \<longrightarrow> favorite.provider_user_id d = p)
      \<longrightarrow> isFavorite (snd (addToFavorites user seen p ans h)) p)
 \<and> (fst (removeFromFavorites user p ans' h)
      \<longrightarrow> \<not> isFavorite (snd (removeFromFavorites user p ans' h)) p)"
proof (intro conjI impI)
  assume a: "fst (addToFavorites user seen p ans h)
             \<and> (\<forall>d. ans = Data d \<longrightarrow> favorite.provider_user_id d = p)"
  then obtain uid d where "user = Some uid" "uid \<noteq> []"
    "p \<notin> favorite.provider_user_id ` set seen" "ans = Data d"
    unfolding addToFavorites_True_iff by (elim exE conjE)
  with a show "isFavorite (snd (addToFavorites user seen p ans h)) p"
    by (simp add: addToFavorites_sent isFavorite_def show_toast_fields list_ex_iff)
next
  assume "fst (removeFromFavorites user p ans' h)"
  then obtain uid where "user = Some uid" "uid \<noteq> []" "ans' = Data ()"
    unfolding removeFromFavorites_True_iff by (elim exE conjE)
  then show "\<not> isFavorite (snd (removeFromFavorites user p ans' h)) p"
    by (simp add: removeFromFavorites_sent isFavorite_def show_toast_fields list_ex_iff)
qed

theorem isFavorite_after_add_and_remove_witness:
  "fst (addToFavorites (Some ''c1'') [scenario_favorite ''f1'' ''p1''] ''p2''
          (Data (scenario_favorite ''f2'' ''p2''))
          (scenario_hook [scenario_favorite ''f1'' ''p1'']))
   \<and> isFavorite (snd (addToFavorites (Some ''c1'') [scenario_favorite ''f1'' ''p1''] ''p2''
          (Data (scenario_favorite ''f2'' ''p2''))
          (scenario_hook [scenario_favorite ''f1'' ''p1'']))) ''p2''
   \<and> fst (removeFromFavorites (Some ''c1'') ''p1'' (Data ())
          (scenario_hook [scenario_favorite ''f1'' ''p1'']))
   \<and> \<not> isFavorite (snd (removeFromFavorites (Some ''c1'') ''p1'' (Data ())
          (scenario_hook [scenario_favorite ''f1'' ''p1'']))) ''p1''"
proof -
  have a: "fst (addToFavorites (Some ''c1'') [scenario_favorite ''f1'' ''p1''] ''p2''
          (Data (scenario_favorite ''f2'' ''p2''))
          (scenario_hook [scenario_favorite ''f1'' ''p1'']))"
    by (simp add: addToFavorites_def scenario_hook_def scenario_favorite_def)
  have r: "fst (removeFromFavorites (Some ''c1'') ''p1'' (Data ())
          (scenario_hook [scenario_favorite ''f1'' ''p1'']))"
    by (simp add: removeFromFavorites_def)
  show ?thesis
    using isFavorite_after_add_and_remove
      [of "Some ''c1''" "[scenario_favorite ''f1'' ''p1'']" "''p2''"
        "Data (scenario_favorite ''f2'' ''p2'')"
        "scenario_hook [scenario_favorite ''f1'' ''p1'']" "Data ()"]
      isFavorite_after_add_and_remove
      [of "Some ''c1''" "[scenario_favorite ''f1'' ''p1'']" "''p1''"
        "Data (scenario_favorite ''f2'' ''p1'')"
        "scenario_hook [scenario_favorite ''f1'' ''p1'']" "Data ()"]
      a r
    by (simp add: scenario_hook_fields)
qed

subsection \<open>Loading\<close>

text \<open>
  C7. With a signed-in user, when the query answers with an error or raises,
  \<^verbatim>\<open>loadFavorites\<close> shows an error notification and leaves the local list as it was. With
  no signed-in user it sets the local list to the empty list and sends no request.
\<close>

theorem load_failure_keeps_favorites:
  "(uid \<noteq> [] \<and> (ans = Failed e \<or> ans = Thrown e) \<longrightarrow>
      favorites (loadFavorites (Some uid) ans h) = favorites h
    \<and> (\<exists>t. toasts (loadFavorites (Some uid) ans h) = toasts h @ [t]
          \<and> title t = ''Error'' \<and> variant t = Some ''destructive''))
 \<and> (user = None \<or> user = Some [] \<longrightarrow>
      favorites (loadFavorites user ans' h) = []
    \<and> fav_requests (loadFavorites user ans' h) = fav_requests h)"
  by (auto simp add: loadFavorites_def Let_def show_toast_def)

theorem load_failure_keeps_favorites_witness:
  "''c1'' \<noteq> []
   \<and> favorites (loadFavorites (Some ''c1'') (Failed ''timeout'')
        (scenario_hook [scenario_favorite ''f1'' ''p1''])) = [scenario_favorite ''f1'' ''p1'']
   \<and> favorites (loadFavorites (Some ''c1'') (Thrown ''network'')
        (scenario_hook [scenario_favorite ''f1'' ''p1''])) = [scenario_favorite ''f1'' ''p1'']
   \<and> favorites (loadFavorites None (Data (Some [scenario_favorite ''f2'' ''p2'']))
        (scenario_hook [scenario_favorite ''f1'' ''p1''])) = []
   \<and> fav_requests (loadFavorites None (Data (Some [scenario_favorite ''f2'' ''p2'']))
        (scenario_hook [scenario_favorite ''f1'' ''p1''])) = []"
  using load_failure_keeps_favorites
      [of "''c1''" "Failed ''timeout''" "''timeout''"
        "scenario_hook [scenario_favorite ''f1'' ''p1'']" None
        "Data (Some [scenario_favorite ''f2'' ''p2''])"]
    load_failure_keeps_favorites
      [of "''c1''" "Thrown ''network''" "''network''"
        "scenario_hook [scenario_favorite ''f1'' ''p1'']" None
        "Data (Some [scenario_favorite ''f2'' ''p2''])"]
  by (simp add: scenario_hook_fields)

subsection \<open>Failures are reported\<close>

text \<open>
  C8. Every failing favorites operation, on every kind of failure and also when nobody is
  signed in, is to show a notification and report the failure to its caller without
  raising. The source departs from this in \<^verbatim>\<open>removeFromFavorites\<close>: with nobody signed
  in it returns \<^verbatim>\<open>false\<close> and shows nothing, state and notifications left as they
  were, where \<^verbatim>\<open>addToFavorites\<close> on the same condition shows
  \<^verbatim>\<open>Authentication Required\<close>.
\<close>

theorem remove_unauthenticated_shows_nothing:
  "removeFromFavorites None ''p1'' (Data ()) (scenario_hook [scenario_favorite ''f1'' ''p1''])
     = (False, scenario_hook [scenario_favorite ''f1'' ''p1''])
   \<and> toasts (snd (removeFromFavorites None ''p1'' (Data ())
                    (scenario_hook [scenario_favorite ''f1'' ''p1'']))) = []
   \<and> addToFavorites None [scenario_favorite ''f1'' ''p1''] ''p1''
        (Data (scenario_favorite ''f2'' ''p1'')) (scenario_hook [scenario_favorite ''f1'' ''p1''])
     = (False,
        show_toast \<lparr>title = ''Authentication Required'',
                     description = ''Please log in to add favorites.'',
                     variant = Some ''destructive''\<rparr>
          (scenario_hook [scenario_favorite ''f1'' ''p1'']))"
  by (simp add: removeFromFavorites_def addToFavorites_def scenario_hook_fields)

subsection \<open>Removing\<close>

text \<open>
  C9. A successful \<^verbatim>\<open>removeFromFavorites(p)\<close> leaves no entry with
  \<^verbatim>\<open>provider_user_id\<close> \<open>p\<close> in the local list, however many there were, and keeps the
  entries of every other provider, in their order.
\<close>

theorem remove_drops_every_match:
  "fst (removeFromFavorites user p ans h) \<longrightarrow>
     (\<forall>f \<in> set (favorites (snd (removeFromFavorites user p ans h))).
         favorite.provider_user_id f \<noteq> p)
   \<and> filter (\<lambda>f. favorite.provider_user_id f \<noteq> p)
        (favorites (snd (removeFromFavorites user p ans h)))
       = filter (\<lambda>f. favorite.provider_user_id f \<noteq> p) (favorites h)"
proof
  assume "fst (removeFromFavorites user p ans h)"
  then obtain uid where "user = Some uid" "uid \<noteq> []" "ans = Data ()"
    unfolding removeFromFavorites_True_iff by (elim exE conjE)
  then show "(\<forall>f \<in> set (favorites (snd (removeFromFavorites user p ans h))).
         favorite.provider_user_id f \<noteq> p)
   \<and> filter (\<lambda>f. favorite.provider_user_id f \<noteq> p)
        (favorites (snd (removeFromFavorites user p ans h)))
       = filter (\<lambda>f. favorite.provider_user_id f \<noteq> p) (favorites h)"
    by (simp add: removeFromFavorites_sent show_toast_fields)
qed

theorem remove_drops_every_match_witness:
  "fst (removeFromFavorites (Some ''c1'') ''p1'' (Data ())
          (scenario_hook [scenario_favorite ''f1'' ''p1'', scenario_favorite ''f2'' ''p2'',
                          scenario_favorite ''f3'' ''p1'']))
   \<and> favorites (snd (removeFromFavorites (Some ''c1'') ''p1'' (Data ())
          (scenario_hook [scenario_favorite ''f1'' ''p1'', scenario_favorite ''f2'' ''p2'',
                          scenario_favorite ''f3'' ''p1''])))
       = [scenario_favorite ''f2'' ''p2'']"
proof -
  have r: "fst (removeFromFavorites (Some ''c1'') ''p1'' (Data ())
          (scenario_hook [scenario_favorite ''f1'' ''p1'', scenario_favorite ''f2'' ''p2'',
                          scenario_favorite ''f3'' ''p1'']))"
    by (simp add: removeFromFavorites_def)
  note t = remove_drops_every_match [rule_format, OF r]
  have "filter (\<lambda>f. favorite.provider_user_id f \<noteq> ''p1'')
        (favorites (snd (removeFromFavorites (Some ''c1'') ''p1'' (Data ())
          (scenario_hook [scenario_favorite ''f1'' ''p1'', scenario_favorite ''f2'' ''p2'',
                          scenario_favorite ''f3'' ''p1'']))))
       = [scenario_favorite ''f2'' ''p2'']"
    by (simp only: t [THEN conjunct2]) (simp add: scenario_hook_fields)
  then have "favorites (snd (removeFromFavorites (Some ''c1'') ''p1'' (Data ())
          (scenario_hook [scenario_favorite ''f1'' ''p1'', scenario_favorite ''f2'' ''p2'',
                          scenario_favorite ''f3'' ''p1''])))
       = [scenario_favorite ''f2'' ''p2'']"
    by (simp only: filter_True [OF t [THEN conjunct1]])
  with r show ?thesis by simp
qed

subsection \<open>A failed add leaves the list alone\<close>

text \<open>
  C10. Whenever \<^verbatim>\<open>addToFavorites\<close> returns \<^verbatim>\<open>false\<close> (no signed-in user, a duplicate,
  an error answer of the insert, an exception), the local list after the call is the local
  list before it, whatever list the callback captured.
\<close>

theorem add_failure_keeps_favorites:
  "\<not> fst (addToFavorites user seen p ans h) \<longrightarrow>
     favorites (snd (addToFavorites user seen p ans h)) = favorites h"
proof (cases "user = None \<or> user = Some []")
  case True
  then show ?thesis by (simp add: addToFavorites_unauthenticated show_toast_fields)
next
  case False
  then obtain uid where u: "user = Some uid" "uid \<noteq> []" by (cases user) auto
  show ?thesis
  proof (cases "p \<in> favorite.provider_user_id ` set seen")
    case True
    with u show ?thesis by (simp add: addToFavorites_duplicate show_toast_fields)
  next
    case False
    with u show ?thesis by (cases ans) (simp_all add: addToFavorites_sent show_toast_fields)
  qed
qed

theorem add_failure_keeps_favorites_witness:
  "\<not> fst (addToFavorites (Some ''c1'') [scenario_favorite ''f1'' ''p1''] ''p2''
            (Failed ''timeout'')
            (scenario_hook [scenario_favorite ''f1'' ''p1'']))
   \<and> favorites (snd (addToFavorites (Some ''c1'') [scenario_favorite ''f1'' ''p1''] ''p2''
            (Failed ''timeout'')
            (scenario_hook [scenario_favorite ''f1'' ''p1''])))
       = [scenario_favorite ''f1'' ''p1'']"
proof -
  have f: "\<not> fst (addToFavorites (Some ''c1'') [scenario_favorite ''f1'' ''p1''] ''p2''
            (Failed ''timeout'')
            (scenario_hook [scenario_favorite ''f1'' ''p1'']))"
    by (simp add: addToFavorites_def scenario_hook_def scenario_favorite_def)
  from add_failure_keeps_favorites [rule_format, OF f] f show ?thesis
    by (simp add: scenario_hook_fields)
qed

end
